theory Spec2Isabelle
  imports Complex_Main
begin

section \<open>JavaScript values\<close>

text \<open>
  A JavaScript \<open>number\<close> is read as a real number: the nutrition figures are finite, and
  comparison, subtraction, \<open>Math.min\<close>, \<open>Math.max\<close> and \<open>Math.round\<close> keep their sign
  and order on them. \<open>NaN\<close> and the infinities are outside the model.
  A string is a list of code units; the model has the code units \<open>0x00\<close> to \<open>0xFF\<close>
  (\<open>char\<close>), so \<open>0xEB\<close> is the letter e with diaeresis of the Dutch texts.
  The conversion of a number to text inside a template literal is the runtime's
  \<open>Number::toString\<close>; every function that renders a number takes it as the parameter
  \<open>str\<close>. \<open>decimal\<close> below is that conversion on the integers (of magnitude below
  \<open>10^21\<close>), where it is plain decimal digits.
\<close>

fun digits :: "nat \<Rightarrow> string" where
  "digits n =
     (if n < 10 then [char_of (48 + n)] else digits (n div 10) @ [char_of (48 + n mod 10)])"

declare digits.simps [simp del]

definition decimal :: "real \<Rightarrow> string" where
  "decimal x =
     (let i = \<lfloor>x\<rfloor> in
      if i < 0 then CHR ''-'' # digits (nat (- i)) else digits (nat i))"

text \<open>Truthiness of an optional string (\<open>if (x)\<close>): absent and empty strings are falsy.\<close>

fun truthy_str :: "string option \<Rightarrow> bool" where
  "truthy_str None = False"
| "truthy_str (Some s) = (s \<noteq> [])"

text \<open>\<open>a || b\<close> on strings and on numbers, the right operand being always defined: an
  absent or empty string and an absent or zero number give way to \<open>b\<close>.\<close>

definition or_str :: "string option \<Rightarrow> string \<Rightarrow> string" where
  "or_str a b = (case a of Some s \<Rightarrow> (if s \<noteq> [] then s else b) | None \<Rightarrow> b)"

definition or_num :: "real option \<Rightarrow> real \<Rightarrow> real" where
  "or_num a b = (case a of Some x \<Rightarrow> (if x \<noteq> 0 then x else b) | None \<Rightarrow> b)"

subsection \<open>String methods\<close>

text \<open>White space of \<open>String.prototype.trim\<close> and of the regular expression class
  \<open>\s\<close>: tab, line feed, vertical tab, form feed, carriage return, space, no-break space.\<close>

definition is_space :: "char \<Rightarrow> bool" where
  "is_space c = (c \<in> set [CHR 0x09, CHR 0x0A, CHR 0x0B, CHR 0x0C, CHR 0x0D, CHR 0x20, CHR 0xA0])"

definition trim :: "string \<Rightarrow> string" where
  "trim s = rev (dropWhile is_space (rev (dropWhile is_space s)))"

definition is_digit :: "char \<Rightarrow> bool" where
  "is_digit c = (c \<in> set ''0123456789'')"

text \<open>\<open>toLowerCase\<close>: the letters A to Z and the capital letters of Latin-1.\<close>

definition upper_letters :: "string" where
  "upper_letters = ''ABCDEFGHIJKLMNOPQRSTUVWXYZ'' @
     [CHR 0xC0, CHR 0xC1, CHR 0xC2, CHR 0xC3, CHR 0xC4, CHR 0xC5, CHR 0xC6, CHR 0xC7,
      CHR 0xC8, CHR 0xC9, CHR 0xCA, CHR 0xCB, CHR 0xCC, CHR 0xCD, CHR 0xCE, CHR 0xCF,
      CHR 0xD0, CHR 0xD1, CHR 0xD2, CHR 0xD3, CHR 0xD4, CHR 0xD5, CHR 0xD6,
      CHR 0xD8, CHR 0xD9, CHR 0xDA, CHR 0xDB, CHR 0xDC, CHR 0xDD, CHR 0xDE]"

definition lower_letters :: "string" where
  "lower_letters = ''abcdefghijklmnopqrstuvwxyz'' @
     [CHR 0xE0, CHR 0xE1, CHR 0xE2, CHR 0xE3, CHR 0xE4, CHR 0xE5, CHR 0xE6, CHR 0xE7,
      CHR 0xE8, CHR 0xE9, CHR 0xEA, CHR 0xEB, CHR 0xEC, CHR 0xED, CHR 0xEE, CHR 0xEF,
      CHR 0xF0, CHR 0xF1, CHR 0xF2, CHR 0xF3, CHR 0xF4, CHR 0xF5, CHR 0xF6,
      CHR 0xF8, CHR 0xF9, CHR 0xFA, CHR 0xFB, CHR 0xFC, CHR 0xFD, CHR 0xFE]"

definition lower_char :: "char \<Rightarrow> char" where
  "lower_char c = (case map_of (zip upper_letters lower_letters) c of Some l \<Rightarrow> l | None \<Rightarrow> c)"

definition toLowerCase :: "string \<Rightarrow> string" where
  "toLowerCase s = map lower_char s"

text \<open>\<open>s.includes(p)\<close>: \<open>p\<close> starts at some position of \<open>s\<close>.\<close>

fun starts_with :: "string \<Rightarrow> string \<Rightarrow> bool" where
  "starts_with s [] = True"
| "starts_with [] (p # ps) = False"
| "starts_with (c # cs) (p # ps) = (c = p \<and> starts_with cs ps)"

fun str_includes :: "string \<Rightarrow> string \<Rightarrow> bool" where
  "str_includes [] p = (p = [])"
| "str_includes (c # cs) p = (starts_with (c # cs) p \<or> str_includes cs p)"

text \<open>\<open>s.split(sep)\<close> for a separator of one code unit: \<open>acc\<close> holds the piece being
  read, in reverse. The empty string splits into one empty piece.\<close>

fun split_acc :: "char \<Rightarrow> string \<Rightarrow> string \<Rightarrow> string list" where
  "split_acc sep acc [] = [rev acc]"
| "split_acc sep acc (c # cs) =
     (if c = sep then rev acc # split_acc sep [] cs else split_acc sep (c # acc) cs)"

definition split :: "char \<Rightarrow> string \<Rightarrow> string list" where
  "split sep s = split_acc sep [] s"

text \<open>\<open>xs.join(sep)\<close>.\<close>

fun join :: "string \<Rightarrow> string list \<Rightarrow> string" where
  "join sep [] = []"
| "join sep [x] = x"
| "join sep (x # y # ys) = x @ sep @ join sep (y # ys)"

section \<open>The backend: OllamaService\<close>

subsection \<open>Regular expressions of the response parser\<close>

text \<open>\<open>/^\d+\.|^-|^\*/\<close>: the line starts with digits and a period, with a hyphen or
  with an asterisk.\<close>

fun list_marker :: "string \<Rightarrow> bool" where
  "list_marker [] = False"
| "list_marker (c # cs) =
     (c = CHR ''-'' \<or> c = CHR ''*'' \<or>
      (is_digit c \<and> (case dropWhile is_digit cs of [] \<Rightarrow> False | d # _ \<Rightarrow> d = CHR ''.'')))"

text \<open>\<open>line.replace(/^\d+\.|^-|^\*/, '')\<close>: the marker is removed where there is one.\<close>

fun strip_marker :: "string \<Rightarrow> string" where
  "strip_marker [] = []"
| "strip_marker (c # cs) =
     (if c = CHR ''-'' \<or> c = CHR ''*'' then cs
      else if is_digit c then
        (case dropWhile is_digit cs of
           [] \<Rightarrow> c # cs
         | d # rest \<Rightarrow> if d = CHR ''.'' then rest else c # cs)
      else c # cs)"

text \<open>The class \<open>[^,.\n]\<close> and the group \<open>([^,.\n]+)\<close> read greedily at the start of a
  string.\<close>

definition name_char :: "char \<Rightarrow> bool" where
  "name_char c = (c \<noteq> CHR '','' \<and> c \<noteq> CHR ''.'' \<and> c \<noteq> CHR 0x0A)"

definition name_group :: "string \<Rightarrow> string option" where
  "name_group s = (let g = takeWhile name_char s in if g = [] then None else Some g)"

text \<open>White space followed by the group, with backtracking: \<open>ws_group k s\<close> lets the
  white space take \<open>k\<close> code units of \<open>s\<close>, then \<open>k - 1\<close>, down to none, until the group
  matches. \<open>\s*\<close> starts from the whole run of white space; \<open>\s+\<close> keeps the first
  code unit of the run for itself.\<close>

fun ws_group :: "nat \<Rightarrow> string \<Rightarrow> string option" where
  "ws_group 0 s = name_group s"
| "ws_group (Suc k) s =
     (case name_group (drop (Suc k) s) of Some g \<Rightarrow> Some g | None \<Rightarrow> ws_group k s)"

definition ws_star_group :: "string \<Rightarrow> string option" where
  "ws_star_group s = ws_group (length (takeWhile is_space s)) s"

fun ws_plus_group :: "string \<Rightarrow> string option" where
  "ws_plus_group [] = None"
| "ws_plus_group (c # cs) = (if is_space c then ws_star_group cs else None)"

text \<open>A word of the pattern under the flag \<open>i\<close>; the words are in lower case.\<close>

definition keyword_at :: "string \<Rightarrow> string \<Rightarrow> bool" where
  "keyword_at kw s = (toLowerCase (take (length kw) s) = kw)"

text \<open>The three patterns of \<open>extractRecipeName\<close>, matched at the start of \<open>s\<close>; the
  result is the group. In \<open>recipe:?\<close> the colon is taken first and given back when
  the rest fails.\<close>

definition recipe_at :: "string \<Rightarrow> string option" where
  "recipe_at s =
     (if keyword_at ''recipe'' s then
        (let r = drop 6 s;
             with_colon = (case r of [] \<Rightarrow> None
                           | c # cs \<Rightarrow> if c = CHR '':'' then ws_star_group cs else None)
         in case with_colon of Some g \<Rightarrow> Some g | None \<Rightarrow> ws_star_group r)
      else None)"

definition make_at :: "string \<Rightarrow> string option" where
  "make_at s = (if keyword_at ''make'' s then ws_plus_group (drop 4 s) else None)"

definition try_at :: "string \<Rightarrow> string option" where
  "try_at s = (if keyword_at ''try'' s then ws_plus_group (drop 3 s) else None)"

text \<open>\<open>line.match(pattern)\<close> without the flag \<open>g\<close>: the match at the leftmost position
  that has one.\<close>

fun regex_search :: "(string \<Rightarrow> string option) \<Rightarrow> string \<Rightarrow> string option" where
  "regex_search m [] = m []"
| "regex_search m (c # cs) =
     (case m (c # cs) of Some g \<Rightarrow> Some g | None \<Rightarrow> regex_search m cs)"

subsection \<open>The extractors\<close>

text \<open>\<open>extractRecipeName\<close>: the loop over the patterns returns at the first pattern that
  matches with a non-empty group, and returns the group trimmed; \<open>None\<close> is \<open>null\<close>.\<close>

fun first_match :: "(string \<Rightarrow> string option) list \<Rightarrow> string \<Rightarrow> string option" where
  "first_match [] line = None"
| "first_match (p # ps) line =
     (case regex_search p line of
        Some g \<Rightarrow> if g \<noteq> [] then Some (trim g) else first_match ps line
      | None \<Rightarrow> first_match ps line)"

definition extractRecipeName :: "string \<Rightarrow> string option" where
  "extractRecipeName line = first_match [recipe_at, make_at, try_at] line"

text \<open>The loop \<open>for (const w of words) if (line.toLowerCase().includes(w)) return w\<close>.\<close>

fun first_included :: "string list \<Rightarrow> string \<Rightarrow> string \<Rightarrow> string" where
  "first_included [] dflt line = dflt"
| "first_included (w # ws) dflt line =
     (if str_includes (toLowerCase line) w then w else first_included ws dflt line)"

definition extractMealType :: "string \<Rightarrow> string" where
  "extractMealType line =
     first_included [''breakfast'', ''lunch'', ''dinner'', ''snack''] ''meal'' line"

definition extractCategory :: "string \<Rightarrow> string" where
  "extractCategory line =
     first_included [''groceries'', ''utilities'', ''transport'', ''entertainment'']
       ''general'' line"

definition extractItemName :: "string \<Rightarrow> string" where
  "extractItemName line =
     (let cleaned = trim (strip_marker line);
          words = split CHR '' '' cleaned
      in case words of [] \<Rightarrow> ''item'' | w # _ \<Rightarrow> or_str (Some w) ''item'')"

definition extractTaskName :: "string \<Rightarrow> string" where
  "extractTaskName line =
     (let cleaned = trim (strip_marker line);
          words = split CHR '' '' cleaned
      in or_str (Some (join '' '' (take 3 words))) ''cleaning task'')"

text \<open>\<open>response.split('\n\n')[0]\<close>: the text before the first empty line.\<close>

fun first_paragraph :: "string \<Rightarrow> string" where
  "first_paragraph (a # b # cs) =
     (if a = CHR 0x0A \<and> b = CHR 0x0A then [] else a # first_paragraph (b # cs))"
| "first_paragraph cs = cs"

definition extractReasoning :: "string \<Rightarrow> string" where
  "extractReasoning response = or_str (Some (first_paragraph response)) ''Local AI analysis completed''"

subsection \<open>Suggestions\<close>

text \<open>A suggestion is an object with optional fields: the parser writes \<open>meal\<close>,
  \<open>recipe_name\<close>, \<open>reasoning\<close>, \<open>item\<close>, \<open>category\<close>, \<open>task\<close> and \<open>advice\<close>; the client
  reads the nutrition fields too. An absent field is \<open>None\<close>.\<close>

record suggestion =
  meal :: "string option"
  recipe_name :: "string option"
  reasoning :: "string option"
  advice :: "string option"
  item :: "string option"
  category :: "string option"
  task :: "string option"
  prep_time :: "real option"
  s_calories :: "real option"
  s_protein :: "real option"
  s_carbs :: "real option"
  s_fat :: "real option"
  s_ingredients :: "string list option"
  s_instructions :: "string list option"

definition no_fields :: "suggestion" where
  "no_fields = \<lparr>meal = None, recipe_name = None, reasoning = None, advice = None,
     item = None, category = None, task = None, prep_time = None, s_calories = None,
     s_protein = None, s_carbs = None, s_fat = None, s_ingredients = None,
     s_instructions = None\<rparr>"

datatype prompt_type =
  meal_planning | shopping_optimization | budget_analysis | cleaning_schedule
  | other_type

text \<open>The body of each \<open>lines.forEach\<close>: the suggestions one line adds.\<close>

definition meal_line :: "string \<Rightarrow> suggestion list" where
  "meal_line line =
     (if list_marker line then
        (let s = no_fields\<lparr>meal := Some (extractMealType line),
                   recipe_name := extractRecipeName line,
                   reasoning := Some (trim line)\<rparr>
         in if truthy_str (recipe_name s) then [s] else [])
      else [])"

definition shopping_line :: "string \<Rightarrow> suggestion list" where
  "shopping_line line =
     (if list_marker line
      then [no_fields\<lparr>item := Some (extractItemName line), advice := Some (trim line)\<rparr>]
      else [])"

definition budget_line :: "string \<Rightarrow> suggestion list" where
  "budget_line line =
     (if list_marker line
      then [no_fields\<lparr>category := Some (extractCategory line), advice := Some (trim line)\<rparr>]
      else [])"

definition cleaning_line :: "string \<Rightarrow> suggestion list" where
  "cleaning_line line =
     (if list_marker line
      then [no_fields\<lparr>task := Some (extractTaskName line), advice := Some (trim line)\<rparr>]
      else [])"

definition generic_suggestion :: "string \<Rightarrow> suggestion" where
  "generic_suggestion response = no_fields\<lparr>advice := Some response\<rparr>"

definition response_lines :: "string \<Rightarrow> string list" where
  "response_lines response = filter (\<lambda>line. trim line \<noteq> []) (split CHR 0x0A response)"

definition extractSuggestions :: "string \<Rightarrow> prompt_type \<Rightarrow> suggestion list" where
  "extractSuggestions response type =
     (let lines = response_lines response;
          suggestions =
            (case type of
               meal_planning \<Rightarrow> concat (map meal_line lines)
             | shopping_optimization \<Rightarrow> concat (map shopping_line lines)
             | budget_analysis \<Rightarrow> concat (map budget_line lines)
             | cleaning_schedule \<Rightarrow> concat (map cleaning_line lines)
             | other_type \<Rightarrow> [generic_suggestion response])
      in if suggestions \<noteq> [] then suggestions else [generic_suggestion response])"

record ai_response =
  r_type :: prompt_type
  suggestions :: "suggestion list"
  r_reasoning :: string
  confidence :: real

definition parseOllamaResponse :: "string \<Rightarrow> prompt_type \<Rightarrow> ai_response" where
  "parseOllamaResponse response type =
     \<lparr>r_type = type, suggestions = extractSuggestions response type,
      r_reasoning = extractReasoning response, confidence = 7 / 10\<rparr>"

section \<open>The client: AIService\<close>

text \<open>The fields of a nutrition object carry the prefix \<open>n_\<close>, those of a deficit
  \<open>d_\<close> and the nutrition fields of a suggestion \<open>s_\<close>; the fields of a
  \<open>MealRecommendation\<close> keep their names (\<open>id\<close> is \<open>rec_id\<close>).\<close>

datatype meal_type = breakfast | lunch | dinner | snack

record nutrition =
  n_calories :: real
  n_protein :: real
  n_carbs :: real
  n_fat :: real
  n_fiber :: "real option"

record calendar_event =
  title :: string
  start_time :: string
  event_type :: string

record params =
  currentNutrition :: nutrition
  targets :: nutrition
  preferences :: "string list option"
  calendarEvents :: "calendar_event list option"
  mealType :: "meal_type option"

record recommendation =
  rec_id :: string
  name :: string
  description :: string
  reason :: string
  prepTime :: real
  difficulty :: real
  calories :: real
  protein :: real
  carbs :: real
  fat :: real
  ingredients :: "string list"
  instructions :: "string list"
  tags :: "string list"
  rec_mealType :: meal_type
  sportsFriendly :: bool

record deficit =
  d_calories :: real
  d_protein :: real
  d_carbs :: real
  d_fat :: real
  d_fiber :: real

text \<open>The object \<open>deficit\<close> that \<open>buildMealRecommendationPrompt\<close> and
  \<open>getEnhancedFallbackRecommendations\<close> both compute first.\<close>

definition deficit_of :: "params \<Rightarrow> deficit" where
  "deficit_of ps =
     \<lparr>d_calories = n_calories (targets ps) - n_calories (currentNutrition ps),
      d_protein = n_protein (targets ps) - n_protein (currentNutrition ps),
      d_carbs = n_carbs (targets ps) - n_carbs (currentNutrition ps),
      d_fat = n_fat (targets ps) - n_fat (currentNutrition ps),
      d_fiber = or_num (n_fiber (targets ps)) 30 - or_num (n_fiber (currentNutrition ps)) 0\<rparr>"

subsection \<open>The prompt of the client\<close>

definition meal_word :: "meal_type \<Rightarrow> string" where
  "meal_word t =
     (if t = breakfast then ''ontbijt'' else if t = lunch then ''lunch''
      else if t = dinner then ''diner'' else ''tussendoortje'')"

definition buildMealRecommendationPrompt :: "(real \<Rightarrow> string) \<Rightarrow> params \<Rightarrow> string" where
  "buildMealRecommendationPrompt str ps =
     (let deficit = deficit_of ps;
          prompt = ''Ik heb vandaag al '' @ str (n_calories (currentNutrition ps)) @
            '' calorie'' @ [CHR 0xEB] @ ''n gehad van mijn '' @ str (n_calories (targets ps)) @
            '' calorie doel. '';
          prompt = prompt @ ''Ik heb nog '' @ str (d_calories deficit) @ '' calorie'' @
            [CHR 0xEB] @ ''n, '' @ str (d_protein deficit) @ ''g eiwit, '' @
            str (d_carbs deficit) @ ''g koolhydraten, en '' @ str (d_fat deficit) @
            ''g vet nodig. '';
          prompt = (if d_fiber deficit > 0
            then prompt @ ''Ook zou ik nog '' @ str (d_fiber deficit) @
              ''g vezels moeten hebben. ''
            else prompt);
          prompt = (case mealType ps of
              Some t \<Rightarrow> prompt @ ''Geef me aanbevelingen voor '' @ meal_word t @ ''. ''
            | None \<Rightarrow> prompt)
      in prompt @ ''Geef specifieke recepten met ingredi'' @ [CHR 0xEB] @
           ''nten en voedingswaarden die passen bij Nederlandse maaltijdpatronen.'')"

subsection \<open>Estimates\<close>

text \<open>Each estimate takes \<open>suggestion.recipe_name\<close>, which may be absent or empty.\<close>

definition estimatePrepTime :: "string option \<Rightarrow> real" where
  "estimatePrepTime recipeName =
     (case recipeName of None \<Rightarrow> 15 | Some r \<Rightarrow>
      if r = [] then 15
      else let name = toLowerCase r in
        if str_includes name ''smoothie'' \<or> str_includes name ''yoghurt'' then 5
        else if str_includes name ''salad'' \<or> str_includes name ''sandwich'' then 10
        else if str_includes name ''soup'' \<or> str_includes name ''stew'' then 45
        else 20)"

definition estimateDifficulty :: "string option \<Rightarrow> real" where
  "estimateDifficulty recipeName =
     (case recipeName of None \<Rightarrow> 2 | Some r \<Rightarrow>
      if r = [] then 2
      else let name = toLowerCase r in
        if str_includes name ''smoothie'' \<or> str_includes name ''yoghurt'' then 1
        else if str_includes name ''roast'' \<or> str_includes name ''stew'' then 3
        else 2)"

definition estimateCalories :: "string option \<Rightarrow> real" where
  "estimateCalories recipeName =
     (case recipeName of None \<Rightarrow> 300 | Some r \<Rightarrow>
      if r = [] then 300
      else let name = toLowerCase r in
        if str_includes name ''salad'' then 250
        else if str_includes name ''smoothie'' then 200
        else if str_includes name ''soup'' then 300
        else 400)"

definition estimateProtein :: "string option \<Rightarrow> real" where
  "estimateProtein recipeName =
     (case recipeName of None \<Rightarrow> 15 | Some r \<Rightarrow>
      if r = [] then 15
      else let name = toLowerCase r in
        if str_includes name ''chicken'' \<or> str_includes name ''fish'' \<or> str_includes name ''meat''
        then 25
        else if str_includes name ''egg'' then 20
        else if str_includes name ''yoghurt'' then 12
        else 15)"

definition estimateCarbs :: "string option \<Rightarrow> real" where
  "estimateCarbs recipeName =
     (case recipeName of None \<Rightarrow> 30 | Some r \<Rightarrow>
      if r = [] then 30
      else let name = toLowerCase r in
        if str_includes name ''salad'' then 15
        else if str_includes name ''bread'' \<or> str_includes name ''pasta'' then 45
        else 30)"

definition estimateFat :: "string option \<Rightarrow> real" where
  "estimateFat recipeName =
     (case recipeName of None \<Rightarrow> 12 | Some r \<Rightarrow>
      if r = [] then 12
      else let name = toLowerCase r in
        if str_includes name ''avocado'' \<or> str_includes name ''nuts'' then 18
        else if str_includes name ''salmon'' \<or> str_includes name ''fish'' then 15
        else 12)"

definition getDefaultIngredients :: "string option \<Rightarrow> string list" where
  "getDefaultIngredients recipeName =
     (if \<not> truthy_str recipeName then [''diverse ingredi'' @ [CHR 0xEB] @ ''nten'']
      else [''hoofdingredi'' @ [CHR 0xEB] @ ''nt'', ''groenten'', ''kruiden'', ''olie''])"

definition determineMealType :: "string option \<Rightarrow> meal_type" where
  "determineMealType nm =
     (case nm of None \<Rightarrow> lunch | Some r \<Rightarrow>
      if r = [] then lunch
      else let lowerName = toLowerCase r in
        if str_includes lowerName ''breakfast'' \<or> str_includes lowerName ''ontbijt'' then breakfast
        else if str_includes lowerName ''dinner'' \<or> str_includes lowerName ''diner'' then dinner
        else if str_includes lowerName ''snack'' \<or> str_includes lowerName ''tussendoortje''
        then snack
        else lunch)"

definition isSportsFriendly :: "string option \<Rightarrow> bool" where
  "isSportsFriendly nm =
     (case nm of None \<Rightarrow> False | Some r \<Rightarrow>
      if r = [] then False
      else let lowerName = toLowerCase r in
        str_includes lowerName ''protein'' \<or> str_includes lowerName ''recovery'' \<or>
        str_includes lowerName ''energy'')"

subsection \<open>Normalisation of the suggestions\<close>

text \<open>\<open>a || b\<close> where \<open>b\<close> may be absent too.\<close>

definition or_opt :: "string option \<Rightarrow> string option \<Rightarrow> string option" where
  "or_opt a b = (if truthy_str a then a else b)"

text \<open>The body of \<open>suggestions.forEach\<close> in \<open>parseMealRecommendations\<close>: what the
  suggestion at \<open>index\<close> pushes, \<open>now\<close> being the value of \<open>Date.now()\<close> there. An array
  is truthy even when empty, so \<open>ingredients\<close> and \<open>instructions\<close> are replaced only
  when absent.\<close>

definition recommendation_of ::
  "(real \<Rightarrow> string) \<Rightarrow> real \<Rightarrow> nat \<Rightarrow> suggestion \<Rightarrow> recommendation list" where
  "recommendation_of str now index s =
     (if truthy_str (meal s) \<or> truthy_str (recipe_name s) then
        [\<lparr>rec_id = ''ai-'' @ str now @ ''-'' @ str (real index),
          name = or_str (recipe_name s) (or_str (meal s) ''Maaltijdvoorstel''),
          description = or_str (reasoning s) (or_str (advice s) ''AI-gegenereerd voorstel''),
          reason = or_str (reasoning s) ''Aanbevolen door AI'',
          prepTime = or_num (prep_time s) (estimatePrepTime (recipe_name s)),
          difficulty = estimateDifficulty (recipe_name s),
          calories = or_num (s_calories s) (estimateCalories (recipe_name s)),
          protein = or_num (s_protein s) (estimateProtein (recipe_name s)),
          carbs = or_num (s_carbs s) (estimateCarbs (recipe_name s)),
          fat = or_num (s_fat s) (estimateFat (recipe_name s)),
          ingredients = (case s_ingredients s of Some xs \<Rightarrow> xs
                         | None \<Rightarrow> getDefaultIngredients (recipe_name s)),
          instructions = (case s_instructions s of Some xs \<Rightarrow> xs
                          | None \<Rightarrow> [''Bereid volgens traditionele Nederlandse wijze'']),
          tags = [''AI-aanbeveling'', ''personalized''],
          rec_mealType = determineMealType (or_opt (meal s) (recipe_name s)),
          sportsFriendly = isSportsFriendly (or_opt (recipe_name s) (advice s))\<rparr>]
      else [])"

text \<open>\<open>now i\<close> is the clock when the callback runs on the element \<open>i\<close>.\<close>

definition parseMealRecommendations ::
  "(real \<Rightarrow> string) \<Rightarrow> (nat \<Rightarrow> real) \<Rightarrow> suggestion list \<Rightarrow> recommendation list" where
  "parseMealRecommendations str now ss =
     concat (map (\<lambda>(index, s). recommendation_of str (now index) index s) (enumerate 0 ss))"

subsection \<open>The fallback catalog\<close>

text \<open>\<open>Math.round\<close> is \<open>round\<close>: the nearest integer, a half going up.\<close>

definition fallback_protein_1 :: "(real \<Rightarrow> string) \<Rightarrow> deficit \<Rightarrow> params \<Rightarrow> recommendation" where
  "fallback_protein_1 str deficit ps =
     \<lparr>rec_id = ''fallback-protein-1'',
      name = ''Kipfilet met Quinoa'',
      description = ''Hoge eiwit maaltijd met magere kipfilet en quinoa'',
      reason = ''Je hebt nog '' @ str (real_of_int (round (d_protein deficit))) @
        ''g eiwit nodig vandaag'',
      prepTime = 20,
      difficulty = 2,
      calories = min (d_calories deficit) 450,
      protein = 35,
      carbs = 40,
      fat = 8,
      ingredients = [''kipfilet'', ''quinoa'', ''broccoli'', ''olijfolie''],
      instructions = [''Grill kipfilet'', ''Kook quinoa'', ''Stoom broccoli''],
      tags = [''hoog eiwit'', ''magere keuze''],
      rec_mealType = (case mealType ps of Some t \<Rightarrow> t | None \<Rightarrow> lunch),
      sportsFriendly = True\<rparr>"

definition fallback_fiber_1 :: "(real \<Rightarrow> string) \<Rightarrow> deficit \<Rightarrow> params \<Rightarrow> recommendation" where
  "fallback_fiber_1 str deficit ps =
     \<lparr>rec_id = ''fallback-fiber-1'',
      name = ''Volkoren Wrap met Bonen'',
      description = ''Vezelrijke wrap met zwarte bonen en groenten'',
      reason = ''Goede bron van vezels ('' @ str (real_of_int (round (d_fiber deficit))) @
        ''g tekort)'',
      prepTime = 10,
      difficulty = 1,
      calories = min (d_calories deficit) 380,
      protein = 15,
      carbs = 55,
      fat = 12,
      ingredients = [''volkoren wrap'', ''zwarte bonen'', ''paprika'', ''avocado''],
      instructions = [''Verwarm wrap'', ''Voeg bonen toe'', ''Rol met groenten''],
      tags = [''hoge vezels'', ''vegetarisch''],
      rec_mealType = (case mealType ps of Some t \<Rightarrow> t | None \<Rightarrow> lunch),
      sportsFriendly = False\<rparr>"

definition fallback_energy_1 :: "(real \<Rightarrow> string) \<Rightarrow> deficit \<Rightarrow> recommendation" where
  "fallback_energy_1 str deficit =
     \<lparr>rec_id = ''fallback-energy-1'',
      name = ''Nederlandse Stamppot'',
      description = ''Traditionele Nederlandse stamppot met worst'',
      reason = ''Energierijke maaltijd voor je resterende '' @
        str (real_of_int (round (d_calories deficit))) @ '' calorie'' @ [CHR 0xEB] @ ''n'',
      prepTime = 30,
      difficulty = 2,
      calories = min (d_calories deficit) 550,
      protein = 22,
      carbs = 65,
      fat = 18,
      ingredients = [''aardappelen'', ''boerenkool'', ''rookworst'', ''ui''],
      instructions = [''Kook aardappelen'', ''Stamp met boerenkool'', ''Voeg worst toe''],
      tags = [''traditioneel'', ''winters'', ''verzadigend''],
      rec_mealType = dinner,
      sportsFriendly = False\<rparr>"

definition fallback_breakfast_1 :: recommendation where
  "fallback_breakfast_1 =
     \<lparr>rec_id = ''fallback-breakfast-1'',
      name = ''Havermout met Fruit'',
      description = ''Voedzame havermout met seizoensfruit en noten'',
      reason = ''Hoge vezels en langzame koolhydraten voor stabiele energie'',
      prepTime = 5,
      difficulty = 1,
      calories = 340,
      protein = 12,
      carbs = 52,
      fat = 8,
      ingredients = [''havermout'', ''melk'', ''banaan'', ''walnoten'', ''honing''],
      instructions = [''Kook havermout met melk'', ''Voeg fruit toe'', ''Garneer met noten''],
      tags = [''vezels'', ''gezond'', ''snel''],
      rec_mealType = breakfast,
      sportsFriendly = True\<rparr>"

definition fallback_lunch_1 :: recommendation where
  "fallback_lunch_1 =
     \<lparr>rec_id = ''fallback-lunch-1'',
      name = ''Volkoren Sandwich met Ei'',
      description = ''Protein-rijke lunch met volkoren brood'',
      reason = ''Goede balans van eiwitten en complexe koolhydraten'',
      prepTime = 10,
      difficulty = 1,
      calories = 380,
      protein = 18,
      carbs = 35,
      fat = 16,
      ingredients = [''volkoren brood'', ''ei'', ''avocado'', ''tomaat'', ''rucola''],
      instructions = [''Toast brood'', ''Bakje ei'', ''Beleg met groenten''],
      tags = [''eiwit'', ''verzadigend''],
      rec_mealType = lunch,
      sportsFriendly = True\<rparr>"

definition fallback_dinner_1 :: recommendation where
  "fallback_dinner_1 =
     \<lparr>rec_id = ''fallback-dinner-1'',
      name = ''Zalm met Zoete Aardappel'',
      description = ''Omega-3 rijke zalm met gepofte zoete aardappel'',
      reason = ''Hoog in omega-3 en complexe koolhydraten'',
      prepTime = 25,
      difficulty = 2,
      calories = 450,
      protein = 35,
      carbs = 38,
      fat = 18,
      ingredients = [''zalm filet'', ''zoete aardappel'', ''broccoli'', ''olijfolie'', ''citroen''],
      instructions = [''Grill zalm'', ''Bak zoete aardappel'', ''Stoom broccoli''],
      tags = [''omega-3'', ''gezond''],
      rec_mealType = dinner,
      sportsFriendly = True\<rparr>"

text \<open>The object \<open>fallbacks\<close> has the keys \<open>breakfast\<close>, \<open>lunch\<close> and \<open>dinner\<close>.\<close>

definition fallbacks :: "meal_type \<Rightarrow> recommendation list option" where
  "fallbacks key =
     (if key = breakfast then Some [fallback_breakfast_1]
      else if key = lunch then Some [fallback_lunch_1]
      else if key = dinner then Some [fallback_dinner_1]
      else None)"

definition getFallbackMealRecommendations :: "meal_type option \<Rightarrow> recommendation list" where
  "getFallbackMealRecommendations mt =
     (case fallbacks (case mt of Some t \<Rightarrow> t | None \<Rightarrow> lunch) of
        Some rs \<Rightarrow> rs
      | None \<Rightarrow> [fallback_lunch_1])"

definition getEnhancedFallbackRecommendations ::
  "(real \<Rightarrow> string) \<Rightarrow> params \<Rightarrow> recommendation list" where
  "getEnhancedFallbackRecommendations str ps =
     (let deficit = deficit_of ps;
          recommendations = [];
          recommendations = (if d_protein deficit > 20
            then recommendations @ [fallback_protein_1 str deficit ps] else recommendations);
          recommendations = (if d_fiber deficit > 15
            then recommendations @ [fallback_fiber_1 str deficit ps] else recommendations);
          recommendations = (if d_calories deficit > 500
            then recommendations @ [fallback_energy_1 str deficit] else recommendations)
      in if length recommendations = 0 then getFallbackMealRecommendations (mealType ps)
         else recommendations)"

section \<open>The request\<close>

text \<open>An \<open>AiPrompt\<close> as \<open>buildUserPrompt\<close> reads it. \<open>current_date\<close> is the date as
  \<open>toLocaleDateString('nl-NL')\<close> writes it and \<open>start_time\<close> of an event the time as
  \<open>toLocaleString('nl-NL')\<close> writes it: both are the runtime's. Objects and arrays are
  truthy, so an optional field is tested by its presence.\<close>

record user_preferences =
  dietary :: "string list option"
  nutrition_goals :: "nutrition option"
  current_nutrition :: "nutrition option"
  meals_today :: "string list option"

record ai_context =
  calendar_events :: "calendar_event list option"
  user_preferences :: "user_preferences option"
  current_date :: string
  location :: string

record ai_prompt =
  p_type :: prompt_type
  p_context :: ai_context
  user_input :: string

subsection \<open>The prompt of the backend\<close>

definition buildSystemPrompt :: "prompt_type \<Rightarrow> string" where
  "buildSystemPrompt type =
     (let basePrompt = ''You are a helpful nutrition and meal planning assistant. Provide practical, actionable advice focused on filling nutrition gaps and improving meal variety.''
      in case type of
        meal_planning \<Rightarrow> basePrompt @ '' Help with meal planning by suggesting foods that complement what the user has already eaten. Focus on nutrition balance, food variety, and practical meal ideas. Suggest specific ingredients and portion sizes.''
      | shopping_optimization \<Rightarrow> basePrompt @ '' Help optimize shopping lists based on meal plans and nutrition goals. Provide practical advice on what to buy and how to save money.''
      | budget_analysis \<Rightarrow> basePrompt @ '' Analyze spending patterns and provide budget advice for healthy eating within budget constraints.''
      | cleaning_schedule \<Rightarrow> basePrompt @ '' Create practical cleaning schedules that work with busy lifestyles.''
      | other_type \<Rightarrow> basePrompt)"

text \<open>The line \<open>Remaining today\<close>: each gap goes through \<open>Math.max(0, gap)\<close>.\<close>

definition remaining_today :: "(real \<Rightarrow> string) \<Rightarrow> nutrition \<Rightarrow> nutrition \<Rightarrow> string" where
  "remaining_today str current goals =
     (let calorieGap = or_num (Some (n_calories goals)) 2200 - or_num (Some (n_calories current)) 0;
          proteinGap = or_num (Some (n_protein goals)) 150 - or_num (Some (n_protein current)) 0;
          carbGap = or_num (Some (n_carbs goals)) 250 - or_num (Some (n_carbs current)) 0;
          fatGap = or_num (Some (n_fat goals)) 80 - or_num (Some (n_fat current)) 0
      in ''Remaining today: '' @ str (max 0 calorieGap) @ '' kcal, '' @
         str (max 0 proteinGap) @ ''g protein, '' @ str (max 0 carbGap) @ ''g carbs, '' @
         str (max 0 fatGap) @ ''g fat\<newline>'')"

definition nutrition_context :: "(real \<Rightarrow> string) \<Rightarrow> user_preferences option \<Rightarrow> string" where
  "nutrition_context str prefs =
     (case prefs of None \<Rightarrow> [] | Some up \<Rightarrow>
      (case current_nutrition up of None \<Rightarrow> [] | Some current \<Rightarrow>
         ''\<newline>Nutrition today: '' @ str (or_num (Some (n_calories current)) 0) @ '' kcal, '' @
         str (or_num (Some (n_protein current)) 0) @ ''g protein, '' @
         str (or_num (Some (n_carbs current)) 0) @ ''g carbs, '' @
         str (or_num (Some (n_fat current)) 0) @ ''g fat\<newline>'' @
         (case nutrition_goals up of None \<Rightarrow> [] | Some goals \<Rightarrow>
            ''Daily goals: '' @ str (or_num (Some (n_calories goals)) 2200) @ '' kcal, '' @
            str (or_num (Some (n_protein goals)) 150) @ ''g protein, '' @
            str (or_num (Some (n_carbs goals)) 250) @ ''g carbs, '' @
            str (or_num (Some (n_fat goals)) 80) @ ''g fat\<newline>'' @
            remaining_today str current goals)))"

definition meals_context :: "user_preferences option \<Rightarrow> string" where
  "meals_context prefs =
     (case prefs of None \<Rightarrow> [] | Some up \<Rightarrow>
      (case meals_today up of None \<Rightarrow> [] | Some meals \<Rightarrow>
         ''\<newline>Meals already eaten today:\<newline>'' @
         concat (map (\<lambda>m. ''- '' @ m @ ''\<newline>'') meals)))"

definition events_context :: "calendar_event list option \<Rightarrow> string" where
  "events_context evs =
     (case evs of None \<Rightarrow> [] | Some events \<Rightarrow>
      if length events > 0 then
        ''\<newline>Upcoming calendar events:\<newline>'' @
        concat (map (\<lambda>e. ''- '' @ title e @ '' at '' @ start_time e @ '' ('' @ event_type e @
          '')\<newline>'') events)
      else [])"

definition dietary_context :: "user_preferences option \<Rightarrow> string" where
  "dietary_context prefs =
     (case prefs of None \<Rightarrow> [] | Some up \<Rightarrow>
      (case dietary up of None \<Rightarrow> [] | Some ds \<Rightarrow>
         ''\<newline>Dietary preferences: '' @ join '', '' ds @ ''\<newline>''))"

definition buildUserPrompt :: "(real \<Rightarrow> string) \<Rightarrow> ai_prompt \<Rightarrow> string" where
  "buildUserPrompt str prompt =
     (let ctx = p_context prompt;
          contextStr = ''Current date: '' @ current_date ctx @ ''\<newline>'';
          contextStr = contextStr @ ''Location: '' @ location ctx @ ''\<newline>'';
          contextStr = contextStr @ nutrition_context str (user_preferences ctx);
          contextStr = contextStr @ meals_context (user_preferences ctx);
          contextStr = contextStr @ events_context (calendar_events ctx);
          contextStr = contextStr @ dietary_context (user_preferences ctx)
      in contextStr @ ''\<newline>User request: '' @ user_input prompt @
         ''\<newline>\<newline>Focus on practical meal suggestions that fill nutrition gaps. Be specific about ingredients and portions. Keep suggestions simple and achievable.'')"

section \<open>The pipeline\<close>

subsection \<open>The LLM gateway\<close>

text \<open>What \<open>await fetch(...)\<close> gives: the promise is rejected (the endpoint is not
  reachable), or there is a response with its flag \<open>ok\<close> and its body. The body of
  \<open>/api/generate\<close> is the field \<open>response\<close> of its JSON, \<open>None\<close> when the body is not JSON
  or has no such string. The runtime answers \<open>/api/generate\<close> as a function of the
  prompt it is sent.\<close>

datatype 'a fetch_outcome = Rejected | Responded bool 'a

record ollama =
  tags :: "unit fetch_outcome"
  generate :: "string \<Rightarrow> string option fetch_outcome"

definition checkHealth :: "ollama \<Rightarrow> bool" where
  "checkHealth rt = (case tags rt of Rejected \<Rightarrow> False | Responded ok _ \<Rightarrow> ok)"

datatype error = GenerationFailed

text \<open>\<open>generateSuggestions\<close>: everything thrown inside \<open>try\<close> is thrown again as
  \<open>Error('Failed to generate AI suggestions with local LLM')\<close>. \<open>llm_prompt\<close> is the
  field \<open>prompt\<close> of the request.\<close>

definition llm_prompt :: "(real \<Rightarrow> string) \<Rightarrow> ai_prompt \<Rightarrow> string" where
  "llm_prompt str prompt =
     (let systemPrompt = buildSystemPrompt (p_type prompt);
          userPrompt = buildUserPrompt str prompt
      in systemPrompt @ ''\<newline>\<newline>User: '' @ userPrompt @ ''\<newline>\<newline>Assistant:'')"

definition generateSuggestions :: "(real \<Rightarrow> string) \<Rightarrow> ollama \<Rightarrow> ai_prompt \<Rightarrow> error + ai_response" where
  "generateSuggestions str rt prompt =
     (case generate rt (llm_prompt str prompt) of
           Rejected \<Rightarrow> Inl GenerationFailed
         | Responded ok body \<Rightarrow>
             if \<not> ok then Inl GenerationFailed
             else (case body of
                     None \<Rightarrow> Inl GenerationFailed
                   | Some text \<Rightarrow> Inr (parseOllamaResponse text (p_type prompt))))"

subsection \<open>The route \<open>POST /ai/suggestions\<close>\<close>

definition getFallbackSuggestions :: "prompt_type \<Rightarrow> suggestion list" where
  "getFallbackSuggestions type =
     (case type of
        meal_planning \<Rightarrow>
          [no_fields\<lparr>meal := Some ''lunch'', recipe_name := Some ''Dutch Broodjes'',
             reasoning := Some ''Quick and traditional Dutch lunch option'',
             prep_time := Some 10\<rparr>,
           no_fields\<lparr>meal := Some ''dinner'', recipe_name := Some ''Stamppot'',
             reasoning := Some ''Classic Dutch comfort food for dinner'',
             prep_time := Some 30\<rparr>]
      | shopping_optimization \<Rightarrow>
          [no_fields\<lparr>item := Some ''Seasonal vegetables'',
             advice := Some ''Check local seasonal produce for best prices'',
             category := Some ''groceries''\<rparr>,
           no_fields\<lparr>item := Some ''Store brands'',
             advice := Some ''AH Basic products offer good value'',
             category := Some ''groceries''\<rparr>]
      | budget_analysis \<Rightarrow>
          [no_fields\<lparr>category := Some ''groceries'',
             advice := Some ''Track weekly spending and compare with Dutch averages''\<rparr>]
      | cleaning_schedule \<Rightarrow>
          [no_fields\<lparr>task := Some ''Weekly cleaning'',
             advice := Some ''Plan cleaning around your schedule for consistency''\<rparr>]
      | other_type \<Rightarrow>
          [no_fields\<lparr>advice :=
             Some ''AI services temporarily unavailable. Please try again later.''\<rparr>])"

text \<open>The reply of the route: status 200 with \<open>data\<close>, the parsed response, or status 503
  with \<open>fallback_suggestions\<close>.\<close>

datatype route_reply = Success ai_response | Unavailable "suggestion list"

definition suggestions_route :: "(real \<Rightarrow> string) \<Rightarrow> ollama \<Rightarrow> ai_prompt \<Rightarrow> route_reply" where
  "suggestions_route str rt prompt =
     (let isOllamaHealthy = checkHealth rt in
      if isOllamaHealthy then
        (case generateSuggestions str rt prompt of
           Inr response \<Rightarrow> Success response
         | Inl _ \<Rightarrow> Unavailable (getFallbackSuggestions (p_type prompt)))
      else Unavailable (getFallbackSuggestions (p_type prompt)))"

subsection \<open>The client's call\<close>

text \<open>\<open>getMealRecommendations\<close>: \<open>today\<close> is the date the client sends and \<open>backend\<close>
  what \<open>fetch\<close> gives for the prompt; the body of a response is \<open>data.data.suggestions\<close>
  of its JSON, \<open>None\<close> when reading it throws. Every exception of the \<open>try\<close> block ends
  in the \<open>catch\<close> block, which returns the fallback catalog; what is thrown there is an
  \<open>Error\<close>, so reading \<open>error.message\<close> in the \<open>catch\<close> block does not throw.\<close>

definition client_prompt :: "(real \<Rightarrow> string) \<Rightarrow> string \<Rightarrow> params \<Rightarrow> ai_prompt" where
  "client_prompt str today ps =
     \<lparr>p_type = meal_planning,
      p_context = \<lparr>calendar_events = Some (case calendarEvents ps of Some es \<Rightarrow> es | None \<Rightarrow> []),
                 user_preferences = Some
                   \<lparr>dietary = Some (case preferences ps of Some ds \<Rightarrow> ds | None \<Rightarrow> []),
                    nutrition_goals = Some (targets ps),
                    current_nutrition = Some (currentNutrition ps),
                    meals_today = None\<rparr>,
                 current_date = today,
                 location = ''Netherlands''\<rparr>,
      user_input = buildMealRecommendationPrompt str ps\<rparr>"

definition getMealRecommendations ::
  "(real \<Rightarrow> string) \<Rightarrow> (nat \<Rightarrow> real) \<Rightarrow> string \<Rightarrow>
   (ai_prompt \<Rightarrow> suggestion list option fetch_outcome) \<Rightarrow> params \<Rightarrow> recommendation list" where
  "getMealRecommendations str now today backend ps =
     (let prompt = client_prompt str today ps in
      case backend prompt of
        Rejected \<Rightarrow> getEnhancedFallbackRecommendations str ps
      | Responded ok body \<Rightarrow>
          if \<not> ok then getEnhancedFallbackRecommendations str ps
          else (case body of
                  None \<Rightarrow> getEnhancedFallbackRecommendations str ps
                | Some list \<Rightarrow> parseMealRecommendations str now list))"

text \<open>What the client's \<open>fetch\<close> sees of a reply of the route.\<close>

definition over_http :: "route_reply \<Rightarrow> suggestion list option fetch_outcome" where
  "over_http reply =
     (case reply of
        Success response \<Rightarrow> Responded True (Some (suggestions response))
      | Unavailable _ \<Rightarrow> Responded False None)"

text \<open>The whole pipeline of one request: the client, the route and the LLM runtime.\<close>

definition pipeline ::
  "(real \<Rightarrow> string) \<Rightarrow> (nat \<Rightarrow> real) \<Rightarrow> string \<Rightarrow> ollama \<Rightarrow> params \<Rightarrow> recommendation list" where
  "pipeline str now today rt ps =
     getMealRecommendations str now today (\<lambda>prompt. over_http (suggestions_route str rt prompt)) ps"

section \<open>Inputs of the examples\<close>

text \<open>A day on which every target is met, with the meal type asked for.\<close>

definition ps_met :: "meal_type option \<Rightarrow> params" where
  "ps_met mt =
     \<lparr>currentNutrition =
        \<lparr>n_calories = 2200, n_protein = 150, n_carbs = 250, n_fat = 80, n_fiber = Some 25\<rparr>,
      targets =
        \<lparr>n_calories = 2200, n_protein = 150, n_carbs = 250, n_fat = 80, n_fiber = Some 25\<rparr>,
      preferences = None, calendarEvents = None, mealType = mt\<rparr>"

text \<open>A day that lacks 25 g of protein, 5 g of fibre and 100 kcal.\<close>

definition ps_protein :: params where
  "ps_protein =
     \<lparr>currentNutrition =
        \<lparr>n_calories = 2100, n_protein = 125, n_carbs = 200, n_fat = 60, n_fiber = Some 20\<rparr>,
      targets =
        \<lparr>n_calories = 2200, n_protein = 150, n_carbs = 250, n_fat = 80, n_fiber = Some 25\<rparr>,
      preferences = None, calendarEvents = None, mealType = None\<rparr>"

text \<open>An LLM runtime that is not reachable, one that answers \<open>/api/generate\<close> with an
  error status, and one that answers it with a given text.\<close>

definition rt_down :: ollama where
  "rt_down = \<lparr>tags = Rejected, generate = (\<lambda>prompt. Rejected)\<rparr>"

definition rt_error :: ollama where
  "rt_error = \<lparr>tags = Responded True (), generate = (\<lambda>prompt. Responded False None)\<rparr>"

definition rt_answer :: "string \<Rightarrow> ollama" where
  "rt_answer answer =
     \<lparr>tags = Responded True (), generate = (\<lambda>prompt. Responded True (Some answer))\<rparr>"

text \<open>A day with 500 kcal over the target and 50 g of protein under it.\<close>

definition ps_over :: params where
  "ps_over =
     \<lparr>currentNutrition =
        \<lparr>n_calories = 2500, n_protein = 100, n_carbs = 200, n_fat = 60, n_fiber = Some 30\<rparr>,
      targets =
        \<lparr>n_calories = 2000, n_protein = 150, n_carbs = 250, n_fat = 80, n_fiber = Some 30\<rparr>,
      preferences = None, calendarEvents = None, mealType = Some dinner\<rparr>"

text \<open>Two suggestions: one as the route's own table writes them, one with a negative
  calorie figure.\<close>

definition chicken_salad :: suggestion where
  "chicken_salad = no_fields\<lparr>meal := Some ''lunch'', recipe_name := Some ''Chicken salad'',
     prep_time := Some 10\<rparr>"

definition negative_soup :: suggestion where
  "negative_soup = no_fields\<lparr>recipe_name := Some ''Soup'', s_calories := Some (- 50)\<rparr>"

section \<open>Predicates of the statements\<close>

text \<open>The test \<open>suggestion.meal || suggestion.recipe_name\<close> of \<open>parseMealRecommendations\<close>.\<close>

definition kept :: "suggestion \<Rightarrow> bool" where
  "kept s = (truthy_str (meal s) \<or> truthy_str (recipe_name s))"

text \<open>The numeric fields a suggestion supplies are not negative; the numeric fields of a
  recommendation are not negative; the fields a suggestion leaves out are the estimates
  (\<open>difficulty\<close> is always the estimate).\<close>

definition nonneg_opt :: "real option \<Rightarrow> bool" where
  "nonneg_opt a = (case a of Some x \<Rightarrow> 0 \<le> x | None \<Rightarrow> True)"

definition supplied_nonneg :: "suggestion \<Rightarrow> bool" where
  "supplied_nonneg s =
     (nonneg_opt (prep_time s) \<and> nonneg_opt (s_calories s) \<and> nonneg_opt (s_protein s) \<and>
      nonneg_opt (s_carbs s) \<and> nonneg_opt (s_fat s))"

definition nonneg_fields :: "recommendation \<Rightarrow> bool" where
  "nonneg_fields r =
     (0 \<le> prepTime r \<and> 0 \<le> difficulty r \<and> 0 \<le> calories r \<and> 0 \<le> protein r \<and>
      0 \<le> carbs r \<and> 0 \<le> fat r)"

definition estimates_fill :: "suggestion \<Rightarrow> recommendation \<Rightarrow> bool" where
  "estimates_fill s r =
     ((prep_time s = None \<longrightarrow> prepTime r = estimatePrepTime (recipe_name s)) \<and>
      difficulty r = estimateDifficulty (recipe_name s) \<and>
      (s_calories s = None \<longrightarrow> calories r = estimateCalories (recipe_name s)) \<and>
      (s_protein s = None \<longrightarrow> protein r = estimateProtein (recipe_name s)) \<and>
      (s_carbs s = None \<longrightarrow> carbs r = estimateCarbs (recipe_name s)) \<and>
      (s_fat s = None \<longrightarrow> fat r = estimateFat (recipe_name s)))"

text \<open>The dish-name patterns as the languages their regular expressions denote, written
  from the expressions and not from the matcher: \<open>recipe\<close>, an optional colon, any white
  space and a name; \<open>make\<close> or \<open>try\<close>, some white space and a name; a name is a
  non-empty run without comma, period and line feed. A pattern matches a line when the
  line has a part in its language.\<close>

definition spaces :: "string \<Rightarrow> bool" where
  "spaces ws = list_all is_space ws"

definition dish_name :: "string \<Rightarrow> bool" where
  "dish_name g = (g \<noteq> [] \<and> list_all name_char g)"

definition recipe_language :: "string \<Rightarrow> bool" where
  "recipe_language line =
     (\<exists>pre kw colon ws g post. line = pre @ kw @ colon @ ws @ g @ post \<and>
        toLowerCase kw = ''recipe'' \<and> (colon = [] \<or> colon = '':'') \<and> spaces ws \<and> dish_name g)"

definition word_language :: "string \<Rightarrow> string \<Rightarrow> bool" where
  "word_language w line =
     (\<exists>pre kw ws g post. line = pre @ kw @ ws @ g @ post \<and>
        toLowerCase kw = w \<and> ws \<noteq> [] \<and> spaces ws \<and> dish_name g)"

definition dish_pattern :: "string \<Rightarrow> bool" where
  "dish_pattern line =
     (recipe_language line \<or> word_language ''make'' line \<or> word_language ''try'' line)"

text \<open>The group of the first pattern, in the order of the loop of \<open>extractRecipeName\<close>,
  that matches the line.\<close>

definition first_group :: "string \<Rightarrow> string option" where
  "first_group line =
     (case regex_search recipe_at line of
        Some g \<Rightarrow> Some g
      | None \<Rightarrow>
          (case regex_search make_at line of
             Some g \<Rightarrow> Some g
           | None \<Rightarrow> regex_search try_at line))"

section \<open>The response parser\<close>

subsection \<open>Groups are never empty\<close>

lemma name_group_nonempty: "name_group s = Some g \<Longrightarrow> g \<noteq> []"
  by (auto simp: name_group_def Let_def split: if_splits)

lemma ws_group_nonempty: "ws_group k s = Some g \<Longrightarrow> g \<noteq> []"
  by (induction k) (auto dest: name_group_nonempty split: option.splits)

lemma ws_star_group_nonempty: "ws_star_group s = Some g \<Longrightarrow> g \<noteq> []"
  unfolding ws_star_group_def by (rule ws_group_nonempty)

lemma ws_plus_group_nonempty: "ws_plus_group s = Some g \<Longrightarrow> g \<noteq> []"
  by (cases s) (auto dest: ws_star_group_nonempty split: if_splits)

lemma recipe_at_nonempty: "recipe_at s = Some g \<Longrightarrow> g \<noteq> []"
  by (auto simp: recipe_at_def Let_def dest: ws_star_group_nonempty
      split: if_splits option.splits list.splits)

lemma make_at_nonempty: "make_at s = Some g \<Longrightarrow> g \<noteq> []"
  by (auto simp: make_at_def dest: ws_plus_group_nonempty split: if_splits)

lemma try_at_nonempty: "try_at s = Some g \<Longrightarrow> g \<noteq> []"
  by (auto simp: try_at_def dest: ws_plus_group_nonempty split: if_splits)

lemma regex_search_Some: "regex_search m s = Some g \<Longrightarrow> \<exists>t. m t = Some g"
  by (induction s) (auto split: option.splits)

subsection \<open>Responses without list markers\<close>

lemma response_lines_subset:
  "set (response_lines response) \<subseteq> set (split CHR 0x0A response)"
  by (auto simp: response_lines_def)

lemma concat_map_Nil: "(\<And>x. x \<in> set xs \<Longrightarrow> f x = []) \<Longrightarrow> concat (map f xs) = []"
  by (induction xs) auto

text \<open>
  Claim C9. Whatever the response text and the prompt category, the record that
  \<open>parseOllamaResponse\<close> returns has the confidence 0.7.
\<close>

theorem parseOllamaResponse_confidence:
  "confidence (parseOllamaResponse response type) = 7 / 10"
  by (simp add: parseOllamaResponse_def)

text \<open>
  Claim C7. When no line of the response text (the pieces between line feeds) matches
  the list-marker pattern, \<open>extractSuggestions\<close> returns, for every prompt category,
  exactly one suggestion: the generic record whose \<open>advice\<close> is the whole response text.
\<close>

theorem extractSuggestions_without_marker:
  assumes "\<forall>line \<in> set (split CHR 0x0A response). \<not> list_marker line"
  shows "extractSuggestions response type = [generic_suggestion response] \<and>
         advice (generic_suggestion response) = Some response"
proof -
  have no: "\<not> list_marker line" if "line \<in> set (response_lines response)" for line
    using assms that response_lines_subset by blast
  have "concat (map meal_line (response_lines response)) = []"
    by (rule concat_map_Nil) (simp add: meal_line_def no)
  moreover have "concat (map shopping_line (response_lines response)) = []"
    by (rule concat_map_Nil) (simp add: shopping_line_def no)
  moreover have "concat (map budget_line (response_lines response)) = []"
    by (rule concat_map_Nil) (simp add: budget_line_def no)
  moreover have "concat (map cleaning_line (response_lines response)) = []"
    by (rule concat_map_Nil) (simp add: cleaning_line_def no)
  ultimately show ?thesis
    by (cases type) (simp_all add: extractSuggestions_def generic_suggestion_def)
qed

theorem extractSuggestions_without_marker_witness:
  "list_all (\<lambda>line. \<not> list_marker line)
     (split CHR 0x0A ''Eat more vegetables.\<newline>Drink water.'') \<and>
   extractSuggestions ''Eat more vegetables.\<newline>Drink water.'' cleaning_schedule =
     [no_fields\<lparr>advice := Some ''Eat more vegetables.\<newline>Drink water.''\<rparr>]"
proof -
  have h: "\<forall>line \<in> set (split CHR 0x0A ''Eat more vegetables.\<newline>Drink water.'').
             \<not> list_marker line"
    by (simp add: split_def is_digit_def)
  show ?thesis
    using h extractSuggestions_without_marker [OF h, of cleaning_schedule]
    by (simp add: generic_suggestion_def list_all_iff)
qed

section \<open>The fallback catalog\<close>

lemma below_thresholds:
  assumes "d_protein (deficit_of ps) \<le> 20" "d_fiber (deficit_of ps) \<le> 15"
    "d_calories (deficit_of ps) \<le> 500"
  shows "getEnhancedFallbackRecommendations str ps = getFallbackMealRecommendations (mealType ps)"
  using assms by (simp add: getEnhancedFallbackRecommendations_def Let_def)

lemma ps_met_deficit:
  "d_protein (deficit_of (ps_met mt)) = 0" "d_fiber (deficit_of (ps_met mt)) = 0"
  "d_calories (deficit_of (ps_met mt)) = 0"
  by (simp_all add: deficit_of_def ps_met_def or_num_def)

lemma getFallbackMealRecommendations_nonempty: "getFallbackMealRecommendations mt \<noteq> []"
  by (simp add: getFallbackMealRecommendations_def fallbacks_def split: option.splits)

lemma fallback_nonempty: "getEnhancedFallbackRecommendations str ps \<noteq> []"
  by (simp add: getEnhancedFallbackRecommendations_def Let_def
      getFallbackMealRecommendations_nonempty)

text \<open>
  Claim C5. When the protein deficit is 25, the fibre deficit 5 and the calorie deficit
  100, the fallback catalog returns exactly one record, the high-protein record
  \<open>fallback-protein-1\<close>: its reason renders the 25 g, its calories are the 100 left, and
  its meal type is the one asked for, \<open>lunch\<close> when none is.
\<close>

theorem fallback_protein_only:
  assumes "d_protein (deficit_of ps) = 25" "d_fiber (deficit_of ps) = 5"
    "d_calories (deficit_of ps) = 100"
  shows "getEnhancedFallbackRecommendations str ps =
     [\<lparr>rec_id = ''fallback-protein-1'',
       name = ''Kipfilet met Quinoa'',
       description = ''Hoge eiwit maaltijd met magere kipfilet en quinoa'',
       reason = ''Je hebt nog '' @ str 25 @ ''g eiwit nodig vandaag'',
       prepTime = 20, difficulty = 2, calories = 100, protein = 35, carbs = 40, fat = 8,
       ingredients = [''kipfilet'', ''quinoa'', ''broccoli'', ''olijfolie''],
       instructions = [''Grill kipfilet'', ''Kook quinoa'', ''Stoom broccoli''],
       tags = [''hoog eiwit'', ''magere keuze''],
       rec_mealType = (case mealType ps of Some t \<Rightarrow> t | None \<Rightarrow> lunch),
       sportsFriendly = True\<rparr>]"
  using assms
  by (simp add: getEnhancedFallbackRecommendations_def Let_def fallback_protein_1_def)

theorem fallback_protein_only_witness:
  "d_protein (deficit_of ps_protein) = 25 \<and> d_fiber (deficit_of ps_protein) = 5 \<and>
   d_calories (deficit_of ps_protein) = 100 \<and>
   getEnhancedFallbackRecommendations decimal ps_protein =
     [\<lparr>rec_id = ''fallback-protein-1'',
       name = ''Kipfilet met Quinoa'',
       description = ''Hoge eiwit maaltijd met magere kipfilet en quinoa'',
       reason = ''Je hebt nog 25g eiwit nodig vandaag'',
       prepTime = 20, difficulty = 2, calories = 100, protein = 35, carbs = 40, fat = 8,
       ingredients = [''kipfilet'', ''quinoa'', ''broccoli'', ''olijfolie''],
       instructions = [''Grill kipfilet'', ''Kook quinoa'', ''Stoom broccoli''],
       tags = [''hoog eiwit'', ''magere keuze''],
       rec_mealType = lunch, sportsFriendly = True\<rparr>]"
proof -
  have d: "d_protein (deficit_of ps_protein) = 25" "d_fiber (deficit_of ps_protein) = 5"
    "d_calories (deficit_of ps_protein) = 100"
    by (simp_all add: deficit_of_def ps_protein_def or_num_def)
  have "digits 25 = ''25''"
    by code_simp
  then have s: "decimal 25 = ''25''"
    by (simp add: decimal_def)
  have m: "mealType ps_protein = None"
    by (simp add: ps_protein_def)
  from fallback_protein_only [OF d, of decimal] d s m show ?thesis
    by simp
qed

text \<open>
  Claim C6, as amended. When the protein, fibre and calorie deficits are all at or below
  their thresholds (20, 15 and 500), the fallback catalog returns exactly one record:
  the breakfast, lunch or dinner record when that meal type is asked for, each of which
  carries that meal type, and the lunch record when \<open>snack\<close> or no meal type is asked for.
\<close>

theorem fallback_default_record:
  assumes "d_protein (deficit_of ps) \<le> 20" "d_fiber (deficit_of ps) \<le> 15"
    "d_calories (deficit_of ps) \<le> 500"
  shows "getEnhancedFallbackRecommendations str ps =
           (case mealType ps of
              Some breakfast \<Rightarrow> [fallback_breakfast_1]
            | Some lunch \<Rightarrow> [fallback_lunch_1]
            | Some dinner \<Rightarrow> [fallback_dinner_1]
            | Some snack \<Rightarrow> [fallback_lunch_1]
            | None \<Rightarrow> [fallback_lunch_1]) \<and>
         rec_mealType fallback_breakfast_1 = breakfast \<and>
         rec_mealType fallback_lunch_1 = lunch \<and>
         rec_mealType fallback_dinner_1 = dinner"
  using below_thresholds [OF assms, of str]
  by (simp add: getFallbackMealRecommendations_def fallbacks_def fallback_breakfast_1_def
      fallback_lunch_1_def fallback_dinner_1_def split: option.splits meal_type.splits)

theorem fallback_default_record_witness:
  "d_protein (deficit_of (ps_met (Some dinner))) \<le> 20 \<and>
   d_fiber (deficit_of (ps_met (Some dinner))) \<le> 15 \<and>
   d_calories (deficit_of (ps_met (Some dinner))) \<le> 500 \<and>
   getEnhancedFallbackRecommendations decimal (ps_met (Some dinner)) = [fallback_dinner_1] \<and>
   getEnhancedFallbackRecommendations decimal (ps_met None) = [fallback_lunch_1]"
proof -
  have d: "d_protein (deficit_of (ps_met mt)) \<le> 20" "d_fiber (deficit_of (ps_met mt)) \<le> 15"
    "d_calories (deficit_of (ps_met mt)) \<le> 500" for mt
    by (simp_all add: ps_met_deficit)
  have m: "mealType (ps_met mt) = mt" for mt
    by (simp add: ps_met_def)
  from fallback_default_record [OF d, of decimal "Some dinner"]
    fallback_default_record [OF d, of decimal None] d m
  show ?thesis by simp
qed

text \<open>With every target met and \<open>snack\<close> asked for, the one record returned is the lunch
  record, whose meal type is \<open>lunch\<close>.\<close>

theorem fallback_snack_counterexample:
  "d_protein (deficit_of (ps_met (Some snack))) \<le> 20 \<and>
   d_fiber (deficit_of (ps_met (Some snack))) \<le> 15 \<and>
   d_calories (deficit_of (ps_met (Some snack))) \<le> 500 \<and>
   mealType (ps_met (Some snack)) = Some snack \<and>
   map rec_mealType (getEnhancedFallbackRecommendations decimal (ps_met (Some snack))) = [lunch]"
  by (simp add: ps_met_deficit getEnhancedFallbackRecommendations_def Let_def
      getFallbackMealRecommendations_def fallbacks_def fallback_lunch_1_def)
    (simp add: ps_met_def)

section \<open>The pipeline end to end\<close>

lemma not_ok_fallback:
  assumes "backend (client_prompt str today ps) = Rejected \<or>
           (\<exists>body. backend (client_prompt str today ps) = Responded False body)"
  shows "getMealRecommendations str now today backend ps =
         getEnhancedFallbackRecommendations str ps"
  using assms by (auto simp: getMealRecommendations_def Let_def)

lemma unhealthy_route:
  "\<not> checkHealth rt \<Longrightarrow> \<exists>ss. suggestions_route str rt prompt = Unavailable ss"
  by (simp add: suggestions_route_def)

lemma failed_route:
  "generateSuggestions str rt prompt = Inl e \<Longrightarrow>
   \<exists>ss. suggestions_route str rt prompt = Unavailable ss"
  by (simp add: suggestions_route_def)

lemma unavailable_pipeline:
  assumes "suggestions_route str rt (client_prompt str today ps) = Unavailable ss"
  shows "pipeline str now today rt ps = getEnhancedFallbackRecommendations str ps"
  using assms by (simp add: pipeline_def getMealRecommendations_def Let_def over_http_def)

lemma generate_failure:
  assumes "generate rt (llm_prompt str prompt) = Rejected \<or>
           (\<exists>body. generate rt (llm_prompt str prompt) = Responded False body)"
  shows "generateSuggestions str rt prompt = Inl GenerationFailed"
  using assms by (auto simp: generateSuggestions_def)

lemma success_pipeline:
  assumes "checkHealth rt"
    and "generate rt (llm_prompt str (client_prompt str today ps)) = Responded True (Some answer)"
  shows "pipeline str now today rt ps =
         parseMealRecommendations str now (extractSuggestions answer meal_planning)"
  using assms
  by (simp add: pipeline_def getMealRecommendations_def Let_def over_http_def
      suggestions_route_def generateSuggestions_def parseOllamaResponse_def client_prompt_def)

text \<open>
  Claim C4. When the client's request is rejected or answered with a status that is not
  a success, \<open>getMealRecommendations\<close> returns exactly what the fallback catalog returns
  for the same parameters; and so does the whole pipeline when the LLM runtime fails its
  health check, is not reachable for \<open>/api/generate\<close> or answers it with a status that is
  not a success. The result is a list in each case: the exceptions of the source are the
  values \<open>Rejected\<close> and \<open>Inl\<close> of the model, and none is left in the result.
\<close>

theorem unavailable_yields_fallback:
  "(backend (client_prompt str today ps) = Rejected \<or>
    (\<exists>body. backend (client_prompt str today ps) = Responded False body)
    \<longrightarrow> getMealRecommendations str now today backend ps =
          getEnhancedFallbackRecommendations str ps) \<and>
   (\<not> checkHealth rt \<or>
    generate rt (llm_prompt str (client_prompt str today ps)) = Rejected \<or>
    (\<exists>body. generate rt (llm_prompt str (client_prompt str today ps)) = Responded False body)
    \<longrightarrow> pipeline str now today rt ps = getEnhancedFallbackRecommendations str ps)"
proof (intro conjI impI)
  assume "backend (client_prompt str today ps) = Rejected \<or>
    (\<exists>body. backend (client_prompt str today ps) = Responded False body)"
  then show "getMealRecommendations str now today backend ps =
    getEnhancedFallbackRecommendations str ps"
    by (rule not_ok_fallback)
next
  assume a: "\<not> checkHealth rt \<or>
    generate rt (llm_prompt str (client_prompt str today ps)) = Rejected \<or>
    (\<exists>body. generate rt (llm_prompt str (client_prompt str today ps)) = Responded False body)"
  have "\<exists>ss. suggestions_route str rt (client_prompt str today ps) = Unavailable ss"
  proof (cases "checkHealth rt")
    case False
    then show ?thesis by (rule unhealthy_route)
  next
    case True
    with a have "generateSuggestions str rt (client_prompt str today ps) = Inl GenerationFailed"
      by (intro generate_failure) blast
    then show ?thesis by (rule failed_route)
  qed
  then show "pipeline str now today rt ps = getEnhancedFallbackRecommendations str ps"
    using unavailable_pipeline by blast
qed

theorem unavailable_yields_fallback_witness:
  "\<not> checkHealth rt_down \<and>
   pipeline decimal (\<lambda>i. 0) ''2-11-2026'' rt_down (ps_met (Some dinner)) = [fallback_dinner_1] \<and>
   checkHealth rt_error \<and>
   pipeline decimal (\<lambda>i. 0) ''2-11-2026'' rt_error (ps_met (Some dinner)) = [fallback_dinner_1] \<and>
   getMealRecommendations decimal (\<lambda>i. 0) ''2-11-2026'' (\<lambda>prompt. Rejected)
     (ps_met (Some dinner)) = [fallback_dinner_1]"
proof -
  have f: "getEnhancedFallbackRecommendations decimal (ps_met (Some dinner)) = [fallback_dinner_1]"
    by (simp add: below_thresholds ps_met_deficit getFallbackMealRecommendations_def fallbacks_def)
      (simp add: ps_met_def)
  have h: "\<not> checkHealth rt_down" "checkHealth rt_error"
    by (simp_all add: checkHealth_def rt_down_def rt_error_def)
  have g: "generate rt_error q = Responded False None" for q
    by (simp add: rt_error_def)
  from unavailable_yields_fallback [of "\<lambda>prompt. Rejected" decimal "''2-11-2026''"
      "ps_met (Some dinner)" "\<lambda>i. 0" rt_down]
    unavailable_yields_fallback [of "\<lambda>prompt. Rejected" decimal "''2-11-2026''"
      "ps_met (Some dinner)" "\<lambda>i. 0" rt_error] f h g
  show ?thesis by simp
qed

text \<open>
  Claim C8. End to end: when \<open>breakfast\<close> is asked for, the protein, fibre and calorie
  deficits are at or below their thresholds and the health check of the LLM runtime
  fails, the pipeline returns one record, the breakfast record, whose meal type is
  \<open>breakfast\<close>.
\<close>

theorem breakfast_when_unhealthy:
  assumes "mealType ps = Some breakfast"
    and "d_protein (deficit_of ps) \<le> 20" "d_fiber (deficit_of ps) \<le> 15"
      "d_calories (deficit_of ps) \<le> 500"
    and "\<not> checkHealth rt"
  shows "pipeline str now today rt ps = [fallback_breakfast_1] \<and>
         rec_mealType fallback_breakfast_1 = breakfast"
proof -
  obtain ss where "suggestions_route str rt (client_prompt str today ps) = Unavailable ss"
    using unhealthy_route [OF assms(5)] by blast
  then have "pipeline str now today rt ps = getEnhancedFallbackRecommendations str ps"
    by (rule unavailable_pipeline)
  also have "\<dots> = getFallbackMealRecommendations (Some breakfast)"
    using below_thresholds [OF assms(2-4)] assms(1) by simp
  finally show ?thesis
    by (simp add: getFallbackMealRecommendations_def fallbacks_def fallback_breakfast_1_def)
qed

theorem breakfast_when_unhealthy_witness:
  "mealType (ps_met (Some breakfast)) = Some breakfast \<and>
   d_protein (deficit_of (ps_met (Some breakfast))) \<le> 20 \<and>
   d_fiber (deficit_of (ps_met (Some breakfast))) \<le> 15 \<and>
   d_calories (deficit_of (ps_met (Some breakfast))) \<le> 500 \<and>
   \<not> checkHealth rt_down \<and>
   map rec_mealType
     (pipeline decimal (\<lambda>i. 0) ''2-11-2026'' rt_down (ps_met (Some breakfast))) = [breakfast]"
proof -
  have m: "mealType (ps_met (Some breakfast)) = Some breakfast"
    by (simp add: ps_met_def)
  have d: "d_protein (deficit_of (ps_met (Some breakfast))) \<le> 20"
    "d_fiber (deficit_of (ps_met (Some breakfast))) \<le> 15"
    "d_calories (deficit_of (ps_met (Some breakfast))) \<le> 500"
    by (simp_all add: ps_met_deficit)
  have h: "\<not> checkHealth rt_down"
    by (simp add: checkHealth_def rt_down_def)
  from breakfast_when_unhealthy [OF m d h, of decimal "\<lambda>i. 0" "''2-11-2026''"] m d h
  show ?thesis by simp
qed

subsection \<open>When the result is empty\<close>

lemma recommendation_of_Nil: "recommendation_of str t i s = [] \<longleftrightarrow> \<not> kept s"
  by (simp add: recommendation_of_def kept_def)

lemma parse_enumerate_Nil:
  "concat (map (\<lambda>(index, s). recommendation_of str (now index) index s) (enumerate n ss)) = []
   \<longleftrightarrow> (\<forall>s \<in> set ss. \<not> kept s)"
  by (induction ss arbitrary: n) (auto simp: recommendation_of_Nil)

lemma parseMealRecommendations_Nil:
  "parseMealRecommendations str now ss = [] \<longleftrightarrow> (\<forall>s \<in> set ss. \<not> kept s)"
  unfolding parseMealRecommendations_def by (rule parse_enumerate_Nil)

lemma meal_line_kept: "s \<in> set (meal_line line) \<Longrightarrow> kept s"
  by (auto simp: meal_line_def kept_def Let_def split: if_splits)

lemma generic_not_kept: "\<not> kept (generic_suggestion response)"
  by (simp add: kept_def generic_suggestion_def no_fields_def)

lemma meal_line_Nil:
  "meal_line line = [] \<longleftrightarrow> \<not> (list_marker line \<and> truthy_str (extractRecipeName line))"
  by (simp add: meal_line_def Let_def)

lemma parse_meal_planning_Nil:
  "parseMealRecommendations str now (extractSuggestions answer meal_planning) = [] \<longleftrightarrow>
   \<not> (\<exists>line \<in> set (response_lines answer).
         list_marker line \<and> truthy_str (extractRecipeName line))"
proof (cases "concat (map meal_line (response_lines answer)) = []")
  case True
  then have "extractSuggestions answer meal_planning = [generic_suggestion answer]"
    by (simp add: extractSuggestions_def)
  moreover from True have "\<forall>line \<in> set (response_lines answer). meal_line line = []"
    by simp
  ultimately show ?thesis
    by (simp add: parseMealRecommendations_Nil generic_not_kept meal_line_Nil)
next
  case False
  then have e: "extractSuggestions answer meal_planning =
    concat (map meal_line (response_lines answer))"
    by (simp add: extractSuggestions_def)
  from False obtain line s
    where "line \<in> set (response_lines answer)" "s \<in> set (meal_line line)"
    by (auto simp: neq_Nil_conv) (metis list.set_intros(1))
  moreover from this have "kept s" "meal_line line \<noteq> []"
    by (auto dest: meal_line_kept)
  ultimately show ?thesis
    unfolding e parseMealRecommendations_Nil by (auto simp: meal_line_Nil)
qed

lemma try_pasta: "extractRecipeName ''1. Try pasta'' = Some ''pasta''"
  by code_simp

lemma lines_try_pasta:
  "response_lines ''Ideas:\<newline>1. Try pasta'' = [''Ideas:'', ''1. Try pasta'']"
  by code_simp

text \<open>
  Claim C3, as amended. The fallback catalog never returns an empty list, so the result
  of the pipeline is not empty whenever the request does not end in a successful reply:
  the client's call is rejected, answered with another status or with a body it cannot
  read, the health check of the LLM runtime fails, or the generation fails. When the
  runtime is healthy and answers with a text, the result is not empty exactly when a
  line of the text has a list marker and a dish name that \<open>extractRecipeName\<close> finds.
\<close>

theorem pipeline_result_nonempty:
  "getEnhancedFallbackRecommendations str ps \<noteq> [] \<and>
   ((\<forall>ss. backend (client_prompt str today ps) \<noteq> Responded True (Some ss))
      \<longrightarrow> getMealRecommendations str now today backend ps \<noteq> []) \<and>
   (\<not> checkHealth rt \<or>
    generateSuggestions str rt (client_prompt str today ps) = Inl GenerationFailed
      \<longrightarrow> pipeline str now today rt ps \<noteq> []) \<and>
   (checkHealth rt \<and>
    generate rt (llm_prompt str (client_prompt str today ps)) = Responded True (Some answer)
      \<longrightarrow> (pipeline str now today rt ps \<noteq> [] \<longleftrightarrow>
           (\<exists>line \<in> set (response_lines answer).
              list_marker line \<and> truthy_str (extractRecipeName line))))"
proof (intro conjI impI)
  show "getEnhancedFallbackRecommendations str ps \<noteq> []"
    by (rule fallback_nonempty)
next
  assume "\<forall>ss. backend (client_prompt str today ps) \<noteq> Responded True (Some ss)"
  then have "getMealRecommendations str now today backend ps =
    getEnhancedFallbackRecommendations str ps"
    by (auto simp: getMealRecommendations_def Let_def split: fetch_outcome.splits option.splits)
  then show "getMealRecommendations str now today backend ps \<noteq> []"
    by (simp add: fallback_nonempty)
next
  assume "\<not> checkHealth rt \<or>
    generateSuggestions str rt (client_prompt str today ps) = Inl GenerationFailed"
  then have "\<exists>ss. suggestions_route str rt (client_prompt str today ps) = Unavailable ss"
    using unhealthy_route failed_route by blast
  then show "pipeline str now today rt ps \<noteq> []"
    using unavailable_pipeline fallback_nonempty by (metis (no_types))
next
  assume "checkHealth rt \<and>
    generate rt (llm_prompt str (client_prompt str today ps)) = Responded True (Some answer)"
  then have "pipeline str now today rt ps =
    parseMealRecommendations str now (extractSuggestions answer meal_planning)"
    by (simp add: success_pipeline)
  then show "pipeline str now today rt ps \<noteq> [] \<longleftrightarrow>
    (\<exists>line \<in> set (response_lines answer).
       list_marker line \<and> truthy_str (extractRecipeName line))"
    using parse_meal_planning_Nil [of str now answer] by simp
qed

theorem pipeline_result_nonempty_witness:
  "\<not> checkHealth rt_down \<and>
   pipeline decimal (\<lambda>i. 0) ''2-11-2026'' rt_down (ps_met None) \<noteq> [] \<and>
   checkHealth (rt_answer ''Ideas:\<newline>1. Try pasta'') \<and>
   pipeline decimal (\<lambda>i. 0) ''2-11-2026'' (rt_answer ''Ideas:\<newline>1. Try pasta'')
     (ps_met None) \<noteq> []"
proof -
  have h: "\<not> checkHealth rt_down" "checkHealth (rt_answer ''Ideas:\<newline>1. Try pasta'')"
    by (simp_all add: checkHealth_def rt_down_def rt_answer_def)
  have g: "generate (rt_answer ''Ideas:\<newline>1. Try pasta'') q =
    Responded True (Some ''Ideas:\<newline>1. Try pasta'')" for q
    by (simp add: rt_answer_def)
  have m: "list_marker ''1. Try pasta''"
    by (simp add: is_digit_def)
  from pipeline_result_nonempty [of decimal "ps_met None" "\<lambda>prompt. Rejected"
      "''2-11-2026''" "\<lambda>i. 0" rt_down]
    pipeline_result_nonempty [of decimal "ps_met None" "\<lambda>prompt. Rejected"
      "''2-11-2026''" "\<lambda>i. 0" "rt_answer ''Ideas:\<newline>1. Try pasta''"
      "''Ideas:\<newline>1. Try pasta''"]
    h g m
  show ?thesis by (simp add: try_pasta lines_try_pasta)
qed

text \<open>A healthy runtime that answers without a list: the parser wraps the text in the
  generic record, which has neither \<open>meal\<close> nor \<open>recipe_name\<close>, and the client drops it.\<close>

theorem pipeline_empty_counterexample:
  "checkHealth (rt_answer ''Eat more vegetables.'') \<and>
   pipeline decimal (\<lambda>i. 0) ''2-11-2026'' (rt_answer ''Eat more vegetables.'') (ps_met None) = []"
proof -
  have e: "extractSuggestions ''Eat more vegetables.'' meal_planning =
    [generic_suggestion ''Eat more vegetables.'']"
    by code_simp
  have h: "checkHealth (rt_answer ''Eat more vegetables.'')"
    by (simp add: checkHealth_def rt_answer_def)
  have "pipeline decimal (\<lambda>i. 0) ''2-11-2026'' (rt_answer ''Eat more vegetables.'') (ps_met None) =
    parseMealRecommendations decimal (\<lambda>i. 0)
      (extractSuggestions ''Eat more vegetables.'' meal_planning)"
    by (rule success_pipeline [OF h]) (simp add: rt_answer_def)
  with h show ?thesis
    by (simp add: e parseMealRecommendations_Nil generic_not_kept)
qed

section \<open>Normalised recommendations\<close>

lemma estimates_nonneg:
  "0 \<le> estimatePrepTime n" "0 \<le> estimateDifficulty n" "0 \<le> estimateCalories n"
  "0 \<le> estimateProtein n" "0 \<le> estimateCarbs n" "0 \<le> estimateFat n"
  by (simp_all add: estimatePrepTime_def estimateDifficulty_def estimateCalories_def
      estimateProtein_def estimateCarbs_def estimateFat_def Let_def split: option.splits)

lemma or_num_nonneg: "nonneg_opt a \<Longrightarrow> 0 \<le> b \<Longrightarrow> 0 \<le> or_num a b"
  by (simp add: nonneg_opt_def or_num_def split: option.splits)

lemma or_num_None: "or_num None b = b"
  by (simp add: or_num_def)

lemma or_str_nonempty: "b \<noteq> [] \<Longrightarrow> or_str a b \<noteq> []"
  by (simp add: or_str_def split: option.splits)

lemma recommendation_of_single:
  "r \<in> set (recommendation_of str t i s) \<Longrightarrow> recommendation_of str t i s = [r]"
  by (auto simp: recommendation_of_def split: if_splits)

lemma recommendation_of_fields:
  assumes "r \<in> set (recommendation_of str t i s)"
  shows "name r \<noteq> [] \<and> estimates_fill s r \<and> (supplied_nonneg s \<longrightarrow> nonneg_fields r)"
proof -
  from assms have k: "truthy_str (meal s) \<or> truthy_str (recipe_name s)"
    by (auto simp: recommendation_of_def split: if_splits)
  with assms have r: "recommendation_of str t i s = [r]"
    by (auto simp: recommendation_of_def)
  have "name r \<noteq> []"
    using r k by (auto simp: recommendation_of_def or_str_nonempty)
  moreover have "estimates_fill s r"
    using r k by (auto simp: recommendation_of_def estimates_fill_def or_num_None)
  moreover have "nonneg_fields r" if "supplied_nonneg s"
    using r k that
    by (auto simp: recommendation_of_def nonneg_fields_def supplied_nonneg_def
        estimates_nonneg or_num_nonneg)
  ultimately show ?thesis by blast
qed

lemma enumerate_snd: "(i, s) \<in> set (enumerate n ss) \<Longrightarrow> s \<in> set ss"
  by (metis map_snd_enumerate image_eqI list.set_map snd_conv)

lemma in_parse_enumerate:
  "r \<in> set (concat (map (\<lambda>(index, s). recommendation_of str (now index) index s)
      (enumerate n ss)))
   \<Longrightarrow> \<exists>i s. s \<in> set ss \<and> r \<in> set (recommendation_of str (now i) i s)"
  by (auto dest: enumerate_snd)

lemma in_parseMealRecommendations:
  "r \<in> set (parseMealRecommendations str now ss)
   \<Longrightarrow> \<exists>i s. s \<in> set ss \<and> r \<in> set (recommendation_of str (now i) i s)"
  unfolding parseMealRecommendations_def by (rule in_parse_enumerate)

lemma fallback_records:
  assumes "r \<in> set (getEnhancedFallbackRecommendations str ps)"
  shows "r = fallback_protein_1 str (deficit_of ps) ps \<or>
         r = fallback_fiber_1 str (deficit_of ps) ps \<or>
         r = fallback_energy_1 str (deficit_of ps) \<or>
         r = fallback_breakfast_1 \<or> r = fallback_lunch_1 \<or> r = fallback_dinner_1"
  using assms
  by (auto simp: getEnhancedFallbackRecommendations_def Let_def
      getFallbackMealRecommendations_def fallbacks_def split: if_splits option.splits)

lemma fallback_record_fields:
  assumes "r \<in> set (getEnhancedFallbackRecommendations str ps)"
  shows "name r \<noteq> [] \<and> 0 \<le> prepTime r \<and> 0 \<le> difficulty r \<and> 0 \<le> protein r \<and>
         0 \<le> carbs r \<and> 0 \<le> fat r \<and> (0 \<le> d_calories (deficit_of ps) \<longrightarrow> 0 \<le> calories r)"
  using fallback_records [OF assms]
  by (auto simp: fallback_protein_1_def fallback_fiber_1_def fallback_energy_1_def
      fallback_breakfast_1_def fallback_lunch_1_def fallback_dinner_1_def)

lemma parse_chicken_salad:
  "map (\<lambda>r. (name r, prepTime r, difficulty r, calories r, protein r, carbs r, fat r))
     (parseMealRecommendations decimal (\<lambda>i. 0) [chicken_salad]) =
   [(''Chicken salad'', 10, 2, 250, 25, 15, 12)]"
  by code_simp

text \<open>
  Claim C1, as amended. For every array of suggestions whose supplied numeric fields
  (\<open>prep_time\<close>, \<open>calories\<close>, \<open>protein\<close>, \<open>carbs\<close>, \<open>fat\<close>) are not negative, every
  recommendation that \<open>parseMealRecommendations\<close> returns has a non-empty name and
  non-negative \<open>prepTime\<close>, \<open>difficulty\<close>, \<open>calories\<close>, \<open>protein\<close>, \<open>carbs\<close> and \<open>fat\<close>; for
  every array, each recommendation is the one its suggestion pushes, and it fills the
  numeric fields that suggestion omits with the estimates. Every record of the fallback catalog has a non-empty name
  and non-negative \<open>prepTime\<close>, \<open>difficulty\<close>, \<open>protein\<close>, \<open>carbs\<close> and \<open>fat\<close>, and
  non-negative \<open>calories\<close> when the calorie deficit is not negative.
\<close>

theorem recommendations_well_formed:
  "((\<forall>s \<in> set ss. supplied_nonneg s) \<longrightarrow>
      (\<forall>r \<in> set (parseMealRecommendations str now ss). name r \<noteq> [] \<and> nonneg_fields r)) \<and>
   (\<forall>r \<in> set (parseMealRecommendations str now ss).
      \<exists>i s. s \<in> set ss \<and> recommendation_of str (now i) i s = [r] \<and> estimates_fill s r) \<and>
   (\<forall>r \<in> set (getEnhancedFallbackRecommendations str ps).
      name r \<noteq> [] \<and> 0 \<le> prepTime r \<and> 0 \<le> difficulty r \<and> 0 \<le> protein r \<and>
      0 \<le> carbs r \<and> 0 \<le> fat r \<and> (0 \<le> d_calories (deficit_of ps) \<longrightarrow> 0 \<le> calories r))"
proof (intro conjI impI ballI)
  fix r
  assume a: "\<forall>s \<in> set ss. supplied_nonneg s"
    and r: "r \<in> set (parseMealRecommendations str now ss)"
  from in_parseMealRecommendations [OF r] obtain i s
    where s: "s \<in> set ss" "r \<in> set (recommendation_of str (now i) i s)" by blast
  with a recommendation_of_fields [OF s(2)] show "name r \<noteq> []" "nonneg_fields r"
    by auto
next
  fix r
  assume r: "r \<in> set (parseMealRecommendations str now ss)"
  from in_parseMealRecommendations [OF r] obtain i s
    where s: "s \<in> set ss" "r \<in> set (recommendation_of str (now i) i s)" by blast
  with recommendation_of_fields [OF s(2)] recommendation_of_single [OF s(2)]
  show "\<exists>i s. s \<in> set ss \<and> recommendation_of str (now i) i s = [r] \<and> estimates_fill s r"
    by blast
next
  fix r
  assume r: "r \<in> set (getEnhancedFallbackRecommendations str ps)"
  note f = fallback_record_fields [OF r]
  from f show "name r \<noteq> []" by blast
  from f show "0 \<le> prepTime r" by blast
  from f show "0 \<le> difficulty r" by blast
  from f show "0 \<le> protein r" by blast
  from f show "0 \<le> carbs r" by blast
  from f show "0 \<le> fat r" by blast
  assume "0 \<le> d_calories (deficit_of ps)"
  with f show "0 \<le> calories r" by blast
qed

theorem recommendations_well_formed_witness:
  "list_all supplied_nonneg [chicken_salad] \<and>
   list_all (\<lambda>r. name r \<noteq> [] \<and> nonneg_fields r)
     (parseMealRecommendations decimal (\<lambda>i. 0) [chicken_salad]) \<and>
   map (\<lambda>r. (name r, prepTime r, difficulty r, calories r, protein r, carbs r, fat r))
     (parseMealRecommendations decimal (\<lambda>i. 0) [chicken_salad]) =
     [(''Chicken salad'', 10, 2, 250, 25, 15, 12)] \<and>
   0 \<le> d_calories (deficit_of ps_protein) \<and>
   list_all (\<lambda>r. name r \<noteq> [] \<and> 0 \<le> calories r)
     (getEnhancedFallbackRecommendations decimal ps_protein)"
proof -
  have s: "\<forall>s \<in> set [chicken_salad]. supplied_nonneg s"
    by (simp add: supplied_nonneg_def nonneg_opt_def chicken_salad_def no_fields_def)
  have d: "0 \<le> d_calories (deficit_of ps_protein)"
    by (simp add: deficit_of_def ps_protein_def)
  from recommendations_well_formed [of "[chicken_salad]" decimal "\<lambda>i. 0" ps_protein] s d
  show ?thesis
    by (simp add: list_all_iff parse_chicken_salad)
qed

text \<open>A suggestion that supplies \<open>calories = -50\<close> keeps it: \<open>-50 || estimate\<close> is \<open>-50\<close>.\<close>

theorem negative_calories_counterexample:
  "map calories (parseMealRecommendations decimal (\<lambda>i. 0) [negative_soup]) = [- 50]"
  by (simp add: parseMealRecommendations_def recommendation_of_def negative_soup_def
      no_fields_def or_num_def enumerate_simps)

text \<open>The calories of a fallback record are \<open>Math.min(deficit.calories, cap)\<close>: with 500
  kcal over the target and 50 g of protein missing, the high-protein record is returned
  with the calories -500.\<close>

lemma fallback_calories_over_target:
  "map calories (getEnhancedFallbackRecommendations decimal ps_over) = [- 500]"
  by (simp add: getEnhancedFallbackRecommendations_def Let_def deficit_of_def ps_over_def
      or_num_def fallback_protein_1_def)

section \<open>The deficits in the prompts\<close>

lemma decimal_values:
  "decimal 2500 = ''2500''" "decimal 2000 = ''2000''" "decimal (- 500) = ''-500''"
  "decimal 50 = ''50''" "decimal 20 = ''20''" "decimal 0 = ''0''"
proof -
  have "digits 2500 = ''2500''" "digits 2000 = ''2000''" "digits 500 = ''500''"
    "digits 50 = ''50''" "digits 20 = ''20''" "digits 0 = ''0''"
    by code_simp+
  then show "decimal 2500 = ''2500''" "decimal 2000 = ''2000''" "decimal (- 500) = ''-500''"
    "decimal 50 = ''50''" "decimal 20 = ''20''" "decimal 0 = ''0''"
    by (simp_all add: decimal_def)
qed

text \<open>The backend floors every gap it renders in the line \<open>Remaining today\<close>.\<close>

lemma remaining_today_floored:
  "\<exists>a b c d. 0 \<le> a \<and> 0 \<le> b \<and> 0 \<le> c \<and> 0 \<le> d \<and>
     remaining_today str current goals =
       ''Remaining today: '' @ str a @ '' kcal, '' @ str b @ ''g protein, '' @ str c @
       ''g carbs, '' @ str d @ ''g fat\<newline>''"
  unfolding remaining_today_def Let_def
  by (intro exI conjI) (rule max.cobounded1 max.cobounded1 max.cobounded1 max.cobounded1 refl)+

lemma remaining_today_over:
  "remaining_today decimal (currentNutrition ps_over) (targets ps_over) =
     ''Remaining today: 0 kcal, 50g protein, 50g carbs, 20g fat\<newline>''"
  by (simp add: remaining_today_def Let_def ps_over_def or_num_def decimal_values)

text \<open>
  Claim C2. The claim is that no negative deficit appears in the rendered text. The
  client's \<open>buildMealRecommendationPrompt\<close> renders the calorie, protein, carbohydrate and
  fat deficits as they are: with 2500 kcal eaten against a target of 2000 the text says
  that -500 calories are still needed. The backend's \<open>buildUserPrompt\<close> floors the same
  gaps (\<open>remaining_today_floored\<close>), and carries the client's text as the user's request.
\<close>

theorem prompt_negative_deficit:
  "buildMealRecommendationPrompt decimal ps_over =
     ''Ik heb vandaag al 2500 calorie'' @ [CHR 0xEB] @ ''n gehad van mijn 2000 calorie doel. '' @
     ''Ik heb nog -500 calorie'' @ [CHR 0xEB] @
     ''n, 50g eiwit, 50g koolhydraten, en 20g vet nodig. '' @
     ''Geef me aanbevelingen voor diner. '' @
     ''Geef specifieke recepten met ingredi'' @ [CHR 0xEB] @
     ''nten en voedingswaarden die passen bij Nederlandse maaltijdpatronen.''"
  by (simp add: buildMealRecommendationPrompt_def Let_def deficit_of_def ps_over_def or_num_def
      meal_word_def decimal_values)

section \<open>Dish names\<close>

subsection \<open>The matcher decides the languages of the patterns\<close>

lemma regex_search_iff:
  "regex_search m s \<noteq> None \<longleftrightarrow> (\<exists>pre t. s = pre @ t \<and> m t \<noteq> None)"
proof (induction s)
  case Nil
  then show ?case by simp
next
  case (Cons c cs)
  show ?case
  proof (cases "m (c # cs)")
    case (Some g)
    then show ?thesis by (auto intro: exI [of _ "[]"])
  next
    case None
    have "(\<exists>pre t. c # cs = pre @ t \<and> m t \<noteq> None) \<longleftrightarrow> (\<exists>pre t. cs = pre @ t \<and> m t \<noteq> None)"
    proof
      assume "\<exists>pre t. c # cs = pre @ t \<and> m t \<noteq> None"
      then obtain pre t where p: "c # cs = pre @ t" "m t \<noteq> None" by blast
      with None have "pre \<noteq> []" by auto
      with p(1) obtain pre' where "pre = c # pre'" "cs = pre' @ t"
        by (cases pre) auto
      with p(2) show "\<exists>pre t. cs = pre @ t \<and> m t \<noteq> None" by blast
    next
      assume "\<exists>pre t. cs = pre @ t \<and> m t \<noteq> None"
      then obtain pre t where "cs = pre @ t" "m t \<noteq> None" by blast
      then have "c # cs = (c # pre) @ t \<and> m t \<noteq> None" by simp
      then show "\<exists>pre t. c # cs = pre @ t \<and> m t \<noteq> None" by blast
    qed
    with None Cons.IH show ?thesis by simp
  qed
qed

lemma name_group_iff: "name_group s \<noteq> None \<longleftrightarrow> (\<exists>c cs. s = c # cs \<and> name_char c)"
  by (cases s) (auto simp: name_group_def Let_def)

lemma ws_group_iff: "ws_group k s \<noteq> None \<longleftrightarrow> (\<exists>j\<le>k. name_group (drop j s) \<noteq> None)"
proof (induction k)
  case 0
  then show ?case by simp
next
  case (Suc k)
  show ?case
  proof (cases "name_group (drop (Suc k) s)")
    case None
    have "(\<exists>j\<le>Suc k. name_group (drop j s) \<noteq> None) \<longleftrightarrow> (\<exists>j\<le>k. name_group (drop j s) \<noteq> None)"
      using None by (metis le_Suc_eq)
    with None Suc.IH show ?thesis by simp
  next
    case (Some g)
    then show ?thesis by auto
  qed
qed

lemma name_group_dish: "name_group (g @ post) \<noteq> None" if "dish_name g"
  using that by (cases g) (auto simp: name_group_iff dish_name_def simp del: not_None_eq)

lemma dish_name_takeWhile:
  "name_group s \<noteq> None \<Longrightarrow> dish_name (takeWhile name_char s)"
  by (cases s) (auto simp: name_group_iff dish_name_def list_all_iff simp del: not_None_eq
      dest: set_takeWhileD)

lemma spaces_prefix: "spaces ws \<Longrightarrow> length ws \<le> length (takeWhile is_space (ws @ rest))"
  by (induction ws) (auto simp: spaces_def)

lemma take_spaces: "j \<le> length (takeWhile is_space s) \<Longrightarrow> spaces (take j s)"
proof -
  assume "j \<le> length (takeWhile is_space s)"
  then have "take j s = take j (takeWhile is_space s)"
    by (metis append_eq_conv_conj takeWhile_dropWhile_id take_take min.absorb1 take_append
        diff_is_0_eq' take_0 append_Nil2)
  then show ?thesis
    by (auto simp: spaces_def list_all_iff dest: in_set_takeD set_takeWhileD)
qed

lemma ws_star_group_iff:
  "ws_star_group s \<noteq> None \<longleftrightarrow>
   (\<exists>ws g post. s = ws @ g @ post \<and> spaces ws \<and> dish_name g)"
proof
  assume "ws_star_group s \<noteq> None"
  then obtain j where j: "j \<le> length (takeWhile is_space s)" "name_group (drop j s) \<noteq> None"
    unfolding ws_star_group_def ws_group_iff by blast
  have "s = take j s @ takeWhile name_char (drop j s) @ dropWhile name_char (drop j s)"
    by simp
  moreover have "spaces (take j s)" using j(1) by (rule take_spaces)
  moreover have "dish_name (takeWhile name_char (drop j s))"
    using j(2) by (rule dish_name_takeWhile)
  ultimately show "\<exists>ws g post. s = ws @ g @ post \<and> spaces ws \<and> dish_name g"
    by blast
next
  assume "\<exists>ws g post. s = ws @ g @ post \<and> spaces ws \<and> dish_name g"
  then obtain ws g post where s: "s = ws @ g @ post" "spaces ws" "dish_name g" by blast
  have "length ws \<le> length (takeWhile is_space s)"
    unfolding s(1) using s(2) by (rule spaces_prefix)
  moreover have "name_group (drop (length ws) s) \<noteq> None"
    using s(1) name_group_dish [OF s(3)] by simp
  ultimately show "ws_star_group s \<noteq> None"
    unfolding ws_star_group_def ws_group_iff by blast
qed

lemma ws_plus_group_iff:
  "ws_plus_group s \<noteq> None \<longleftrightarrow>
   (\<exists>ws g post. s = ws @ g @ post \<and> ws \<noteq> [] \<and> spaces ws \<and> dish_name g)"
proof
  assume a: "ws_plus_group s \<noteq> None"
  then obtain c cs where s: "s = c # cs" "is_space c" "ws_star_group cs \<noteq> None"
    by (cases s) (auto split: if_splits simp del: not_None_eq)
  then obtain ws g post where "cs = ws @ g @ post" "spaces ws" "dish_name g"
    unfolding ws_star_group_iff by blast
  with s have "s = (c # ws) @ g @ post \<and> c # ws \<noteq> [] \<and> spaces (c # ws) \<and> dish_name g"
    by (simp add: spaces_def)
  then show "\<exists>ws g post. s = ws @ g @ post \<and> ws \<noteq> [] \<and> spaces ws \<and> dish_name g"
    by blast
next
  assume "\<exists>ws g post. s = ws @ g @ post \<and> ws \<noteq> [] \<and> spaces ws \<and> dish_name g"
  then obtain ws g post where s: "s = ws @ g @ post" "ws \<noteq> []" "spaces ws" "dish_name g"
    by blast
  then obtain c ws' where w: "ws = c # ws'" by (cases ws) auto
  with s have "is_space c" "spaces ws'" by (simp_all add: spaces_def)
  moreover from this s(4) have "ws_star_group (ws' @ g @ post) \<noteq> None"
    unfolding ws_star_group_iff by blast
  ultimately show "ws_plus_group s \<noteq> None"
    using s(1) w by simp
qed

lemma keyword_at_iff:
  "keyword_at kw s \<longleftrightarrow> (\<exists>k rest. s = k @ rest \<and> toLowerCase k = kw)"
proof
  assume "keyword_at kw s"
  then have "s = take (length kw) s @ drop (length kw) s \<and> toLowerCase (take (length kw) s) = kw"
    by (simp add: keyword_at_def)
  then show "\<exists>k rest. s = k @ rest \<and> toLowerCase k = kw" by blast
next
  assume "\<exists>k rest. s = k @ rest \<and> toLowerCase k = kw"
  then obtain k rest where s: "s = k @ rest" "toLowerCase k = kw" by blast
  then have "length k = length kw" by (auto simp: toLowerCase_def)
  with s show "keyword_at kw s" by (simp add: keyword_at_def)
qed

lemma keyword_at_drop:
  "toLowerCase k = kw \<Longrightarrow> keyword_at kw (k @ rest) \<and> drop (length kw) (k @ rest) = rest"
  by (auto simp: keyword_at_def toLowerCase_def)

lemma word_at_iff:
  "(keyword_at w s \<and> ws_plus_group (drop (length w) s) \<noteq> None) \<longleftrightarrow>
   (\<exists>kw ws g post. s = kw @ ws @ g @ post \<and> toLowerCase kw = w \<and> ws \<noteq> [] \<and> spaces ws \<and>
      dish_name g)"
proof
  assume a: "keyword_at w s \<and> ws_plus_group (drop (length w) s) \<noteq> None"
  then obtain ws g post
    where r: "drop (length w) s = ws @ g @ post" "ws \<noteq> []" "spaces ws" "dish_name g"
    unfolding ws_plus_group_iff by blast
  from a have "toLowerCase (take (length w) s) = w" by (simp add: keyword_at_def)
  moreover have "s = take (length w) s @ ws @ g @ post"
    using r(1) by (metis append_take_drop_id)
  ultimately show "\<exists>kw ws g post. s = kw @ ws @ g @ post \<and> toLowerCase kw = w \<and> ws \<noteq> [] \<and>
    spaces ws \<and> dish_name g"
    using r by blast
next
  assume "\<exists>kw ws g post. s = kw @ ws @ g @ post \<and> toLowerCase kw = w \<and> ws \<noteq> [] \<and> spaces ws \<and>
    dish_name g"
  then obtain kw ws g post
    where s: "s = kw @ ws @ g @ post" "toLowerCase kw = w" "ws \<noteq> []" "spaces ws" "dish_name g"
    by blast
  from keyword_at_drop [OF s(2), of "ws @ g @ post"] s(1)
  have "keyword_at w s" "drop (length w) s = ws @ g @ post" by simp_all
  moreover have "ws_plus_group (ws @ g @ post) \<noteq> None"
    unfolding ws_plus_group_iff using s by blast
  ultimately show "keyword_at w s \<and> ws_plus_group (drop (length w) s) \<noteq> None" by simp
qed

lemma make_language: "regex_search make_at line \<noteq> None \<longleftrightarrow> word_language ''make'' line"
proof -
  have a: "make_at t \<noteq> None \<longleftrightarrow>
    (keyword_at ''make'' t \<and> ws_plus_group (drop (length ''make'') t) \<noteq> None)" for t
    by (simp add: make_at_def eval_nat_numeral del: not_None_eq)
  show ?thesis
    unfolding regex_search_iff word_language_def a word_at_iff by blast
qed

lemma try_language: "regex_search try_at line \<noteq> None \<longleftrightarrow> word_language ''try'' line"
proof -
  have a: "try_at t \<noteq> None \<longleftrightarrow>
    (keyword_at ''try'' t \<and> ws_plus_group (drop (length ''try'') t) \<noteq> None)" for t
    by (simp add: try_at_def eval_nat_numeral del: not_None_eq)
  show ?thesis
    unfolding regex_search_iff word_language_def a word_at_iff by blast
qed

lemma recipe_at_iff:
  "recipe_at s \<noteq> None \<longleftrightarrow>
   (\<exists>kw colon ws g post. s = kw @ colon @ ws @ g @ post \<and> toLowerCase kw = ''recipe'' \<and>
      (colon = [] \<or> colon = '':'') \<and> spaces ws \<and> dish_name g)"
proof
  assume a: "recipe_at s \<noteq> None"
  then have k: "keyword_at ''recipe'' s"
    by (auto simp: recipe_at_def split: if_splits)
  define r where "r = drop 6 s"
  have s: "take 6 s @ r = s" by (simp add: r_def)
  from k have l: "toLowerCase (take 6 s) = ''recipe''"
    by (simp add: keyword_at_def eval_nat_numeral)
  from a k have "(\<exists>cs. r = CHR '':'' # cs \<and> ws_star_group cs \<noteq> None) \<or> ws_star_group r \<noteq> None"
    by (auto simp: recipe_at_def Let_def r_def split: option.splits list.splits if_splits
        simp del: not_None_eq)
  then show "\<exists>kw colon ws g post. s = kw @ colon @ ws @ g @ post \<and> toLowerCase kw = ''recipe'' \<and>
      (colon = [] \<or> colon = '':'') \<and> spaces ws \<and> dish_name g"
  proof
    assume "\<exists>cs. r = CHR '':'' # cs \<and> ws_star_group cs \<noteq> None"
    then obtain cs ws g post where r: "r = '':'' @ ws @ g @ post" "spaces ws" "dish_name g"
      unfolding ws_star_group_iff by auto
    from s r(1) have "s = take 6 s @ '':'' @ ws @ g @ post" by simp
    with l r(2,3) show ?thesis by blast
  next
    assume "ws_star_group r \<noteq> None"
    then obtain ws g post where r: "r = [] @ ws @ g @ post" "spaces ws" "dish_name g"
      unfolding ws_star_group_iff by auto
    from s r(1) have "s = take 6 s @ [] @ ws @ g @ post" by simp
    with l r(2,3) show ?thesis by blast
  qed
next
  assume "\<exists>kw colon ws g post. s = kw @ colon @ ws @ g @ post \<and> toLowerCase kw = ''recipe'' \<and>
      (colon = [] \<or> colon = '':'') \<and> spaces ws \<and> dish_name g"
  then obtain kw colon ws g post
    where s: "s = kw @ colon @ ws @ g @ post" "toLowerCase kw = ''recipe''"
      "colon = [] \<or> colon = '':''" "spaces ws" "dish_name g"
    by blast
  have six: "length ''recipe'' = 6" by simp
  from keyword_at_drop [OF s(2), of "colon @ ws @ g @ post", unfolded six]
  have k: "keyword_at ''recipe'' s" "drop 6 s = colon @ ws @ g @ post"
    unfolding s(1) by blast+
  have w: "ws_star_group (ws @ g @ post) \<noteq> None"
    unfolding ws_star_group_iff using s(4,5) by blast
  from s(3) show "recipe_at s \<noteq> None"
  proof
    assume "colon = []"
    with k w show ?thesis
      by (auto simp: recipe_at_def Let_def split: option.splits list.splits simp del: not_None_eq)
  next
    assume "colon = '':''"
    with k w show ?thesis
      by (auto simp: recipe_at_def Let_def split: option.splits list.splits simp del: not_None_eq)
  qed
qed

lemma recipe_language_iff:
  "regex_search recipe_at line \<noteq> None \<longleftrightarrow> recipe_language line"
  unfolding regex_search_iff recipe_language_def recipe_at_iff by blast


lemma dish_pattern_search:
  "dish_pattern line \<longleftrightarrow>
   regex_search recipe_at line \<noteq> None \<or> regex_search make_at line \<noteq> None \<or>
   regex_search try_at line \<noteq> None"
  unfolding dish_pattern_def recipe_language_iff make_language try_language ..

subsection \<open>The lines that give a suggestion\<close>

lemma search_nonempty:
  "regex_search recipe_at s = Some g \<Longrightarrow> g \<noteq> []"
  "regex_search make_at s = Some g \<Longrightarrow> g \<noteq> []"
  "regex_search try_at s = Some g \<Longrightarrow> g \<noteq> []"
  using regex_search_Some recipe_at_nonempty make_at_nonempty try_at_nonempty by blast+

lemma extractRecipeName_first_group:
  "extractRecipeName line = map_option trim (first_group line)"
  by (auto simp: extractRecipeName_def first_group_def dest: search_nonempty
      split: option.splits)

lemma first_group_pattern: "first_group line = Some g \<Longrightarrow> dish_pattern line"
  by (auto simp: first_group_def dish_pattern_search split: option.splits)

lemma no_pattern_no_name: "\<not> dish_pattern line \<Longrightarrow> extractRecipeName line = None"
  by (auto simp: extractRecipeName_def dish_pattern_search)

lemma meal_line_first_group:
  "meal_line line =
     (if list_marker line then
        (case first_group line of
           None \<Rightarrow> []
         | Some g \<Rightarrow>
             if trim g \<noteq> [] then
               [no_fields\<lparr>meal := Some (extractMealType line), recipe_name := Some (trim g),
                  reasoning := Some (trim line)\<rparr>]
             else [])
      else [])"
  by (simp add: meal_line_def Let_def extractRecipeName_first_group split: option.splits)

lemma fruit_lines:
  "response_lines ''- eat fruit\<newline>* drink water'' = [''- eat fruit'', ''* drink water'']"
  by code_simp

lemma fruit_no_dish: "\<not> dish_pattern ''- eat fruit''" "\<not> dish_pattern ''* drink water''"
  unfolding dish_pattern_search by code_simp+

lemma pasta_line:
  "list_marker ''1. Try pasta''" "first_group ''1. Try pasta'' = Some ''pasta''"
  "trim ''pasta'' = ''pasta''" "trim ''1. Try pasta'' = ''1. Try pasta''"
  "extractMealType ''1. Try pasta'' = ''meal''"
  by code_simp+

lemma blank_try:
  "list_marker ''- try  ''" "regex_search try_at ''- try  '' = Some '' ''"
  "meal_line ''- try  '' = []"
  "extractSuggestions ''- try  '' meal_planning = [generic_suggestion ''- try  '']"
  by code_simp+

lemma blank_try_pattern: "dish_pattern ''- try  ''"
  unfolding dish_pattern_search by code_simp

text \<open>
  Claim C10, as amended. For the meal-planning category, a line that matches the
  list-marker pattern gives a suggestion exactly when the first of the dish-name patterns
  (\<open>recipe: X\<close>, \<open>make X\<close>, \<open>try X\<close>, in this order) that matches it captures a name that
  is not empty once trimmed, and the suggestion then carries the trimmed name; a line
  gives a suggestion only if it has a list marker and one of the patterns matches it;
  and a response whose lines with a list marker match none of the patterns yields the
  single generic record with the whole text.
\<close>

theorem meal_line_dish_name:
  "(list_marker line \<longrightarrow>
      (meal_line line \<noteq> [] \<longleftrightarrow> (\<exists>g. first_group line = Some g \<and> trim g \<noteq> [])) \<and>
      (\<forall>g. first_group line = Some g \<and> trim g \<noteq> [] \<longrightarrow>
         meal_line line =
           [no_fields\<lparr>meal := Some (extractMealType line), recipe_name := Some (trim g),
              reasoning := Some (trim line)\<rparr>])) \<and>
   (meal_line line \<noteq> [] \<longrightarrow> list_marker line \<and> dish_pattern line) \<and>
   ((\<forall>l \<in> set (response_lines response). list_marker l \<longrightarrow> \<not> dish_pattern l) \<longrightarrow>
      extractSuggestions response meal_planning = [generic_suggestion response])"
proof (intro conjI impI allI)
  assume "list_marker line"
  then show "meal_line line \<noteq> [] \<longleftrightarrow> (\<exists>g. first_group line = Some g \<and> trim g \<noteq> [])"
    by (simp add: meal_line_first_group split: option.splits)
next
  fix g
  assume "list_marker line" "first_group line = Some g \<and> trim g \<noteq> []"
  then show "meal_line line =
    [no_fields\<lparr>meal := Some (extractMealType line), recipe_name := Some (trim g),
       reasoning := Some (trim line)\<rparr>]"
    by (simp add: meal_line_first_group)
next
  assume "meal_line line \<noteq> []"
  then show "list_marker line" "dish_pattern line"
    by (auto simp: meal_line_first_group dest: first_group_pattern
        split: if_splits option.splits)
next
  assume a: "\<forall>l \<in> set (response_lines response). list_marker l \<longrightarrow> \<not> dish_pattern l"
  have "concat (map meal_line (response_lines response)) = []"
  proof (rule concat_map_Nil)
    fix l
    assume "l \<in> set (response_lines response)"
    with a have "list_marker l \<Longrightarrow> extractRecipeName l = None"
      by (simp add: no_pattern_no_name)
    then show "meal_line l = []"
      by (auto simp: meal_line_def Let_def)
  qed
  then show "extractSuggestions response meal_planning = [generic_suggestion response]"
    by (simp add: extractSuggestions_def)
qed

theorem meal_line_dish_name_witness:
  "list_marker ''1. Try pasta'' \<and>
   meal_line ''1. Try pasta'' =
     [no_fields\<lparr>meal := Some ''meal'', recipe_name := Some ''pasta'',
        reasoning := Some ''1. Try pasta''\<rparr>] \<and>
   dish_pattern ''1. Try pasta'' \<and>
   list_all (\<lambda>l. \<not> dish_pattern l) (response_lines ''- eat fruit\<newline>* drink water'') \<and>
   extractSuggestions ''- eat fruit\<newline>* drink water'' meal_planning =
     [generic_suggestion ''- eat fruit\<newline>* drink water'']"
proof -
  note t = meal_line_dish_name [of "''1. Try pasta''" "''- eat fruit\<newline>* drink water''"]
  note n = fruit_no_dish
  from t have a: "meal_line ''1. Try pasta'' =
     [no_fields\<lparr>meal := Some ''meal'', recipe_name := Some ''pasta'',
        reasoning := Some ''1. Try pasta''\<rparr>]"
    using pasta_line by (metis list.distinct(1))
  from t a have b: "dish_pattern ''1. Try pasta''"
    by simp
  from t have c: "extractSuggestions ''- eat fruit\<newline>* drink water'' meal_planning =
     [generic_suggestion ''- eat fruit\<newline>* drink water'']"
    by (simp add: fruit_lines n)
  from a b c pasta_line(1) show ?thesis
    by (simp add: fruit_lines n del: list_marker.simps)
qed

text \<open>The line \<open>- try\<close> followed by two spaces: the pattern \<open>try X\<close> matches it, the
  white space keeping the first space and the name being the second; the trimmed name
  is empty and the line gives no suggestion.\<close>

theorem blank_name_counterexample:
  "list_marker ''- try  '' \<and> dish_pattern ''- try  '' \<and>
   regex_search try_at ''- try  '' = Some '' '' \<and> meal_line ''- try  '' = [] \<and>
   extractSuggestions ''- try  '' meal_planning = [generic_suggestion ''- try  '']"
  using blank_try blank_try_pattern by blast

end
